theory Spec2Isabelle
  imports Complex_Main "HOL-Library.Multiset"
begin

section \<open>Data model of the compliance engine\<close>

text \<open>
  The tables of \<^verbatim>\<open>drizzle/schema.ts\<close> that the compliance service reads and writes.
  A row is a record whose fields carry the column names behind a short table prefix
  (several tables share the column names \<^verbatim>\<open>id\<close> and \<^verbatim>\<open>tenantId\<close>). A nullable column is an
  \<open>option\<close>, a timestamp is the time value of a JavaScript \<^verbatim>\<open>Date\<close>: milliseconds since the
  epoch, as an \<open>int\<close>. A JSON object of strings is an association list. Of the tenant
  tables, which belong to the tenant service, the columns that identify a row are kept.
\<close>

type_synonym timestamp = int

datatype status = not_started | in_progress | completed | skipped

datatype frequency = once | quarterly | annually | monthly

datatype reminderType = email | notification | sms

record attachment =
  att_name :: string
  att_url :: string
  att_uploadedAt :: string

record item =
  it_id :: string
  it_label :: string
  it_details :: string
  it_link :: "string option"
  it_note :: "string option"
  it_frequency :: "frequency option"
  it_dueDate :: "string option"

record section_row =
  sec_id :: string
  sec_title :: string
  sec_description :: string
  sec_items :: "item list"

record complianceChecklist =
  cl_id :: string
  cl_title :: string
  cl_version :: string
  cl_region :: "string option"
  cl_businessType :: "string option"
  cl_sections :: "section_row list"
  cl_metadata :: "(string \<times> string) list option"
  cl_isActive :: bool
  cl_createdAt :: "timestamp option"
  cl_updatedAt :: "timestamp option"

record tenantCompliance =
  tc_id :: string
  tc_tenantId :: string
  tc_checklistId :: string
  tc_itemId :: string
  tc_status :: status
  tc_completedAt :: "timestamp option"
  tc_completedBy :: "string option"
  tc_notes :: "string option"
  tc_attachments :: "attachment list option"
  tc_nextDueDate :: "timestamp option"
  tc_reminderSent :: bool
  tc_createdAt :: "timestamp option"
  tc_updatedAt :: "timestamp option"

record complianceReminder =
  rem_id :: string
  rem_tenantId :: string
  rem_complianceId :: string
  rem_reminderType :: reminderType
  rem_scheduledFor :: timestamp
  rem_sent :: bool
  rem_sentAt :: "timestamp option"
  rem_message :: string
  rem_metadata :: "(string \<times> string) list"
  rem_createdAt :: "timestamp option"

datatype role = owner | admin | member

record tenant =
  tn_id :: string
  tn_name :: string
  tn_slug :: string
  tn_ownerId :: string

record userTenant =
  ut_id :: string
  ut_userId :: string
  ut_tenantId :: string
  ut_role :: role

record tenantModule =
  tm_id :: string
  tm_tenantId :: string
  tm_enabled :: bool

text \<open>
  The database: one list of rows per table, in insertion order. \<^verbatim>\<open>getDb()\<close> returns the
  handle or \<^verbatim>\<open>null\<close>, so every operation takes a \<open>db option\<close> and fails with
  \<open>DatabaseNotAvailable\<close> on \<open>None\<close>.
\<close>

record db =
  complianceChecklists :: "complianceChecklist list"
  tenantComplianceRows :: "tenantCompliance list"
  complianceReminders :: "complianceReminder list"
  tenants :: "tenant list"
  userTenants :: "userTenant list"
  tenantModules :: "tenantModule list"

text \<open>
  Every \<^verbatim>\<open>throw new Error(...)\<close> of the service and the router is a value of \<open>error\<close>, named
  after its message. \<open>InvalidTimeValue\<close> is the \<^verbatim>\<open>RangeError\<close> that the serialization of an
  \<^verbatim>\<open>Invalid Date\<close> throws when a row is written.
\<close>

datatype error = DatabaseNotAvailable | ChecklistNotFound | Unauthorized | InvalidTimeValue

section \<open>Status transition\<close>

text \<open>
  \<^verbatim>\<open>updateComplianceStatus\<close> builds the partial row \<^verbatim>\<open>updateData\<close> and writes it to every row
  whose id equals \<^verbatim>\<open>complianceId\<close>. \<open>applyUpdateData\<close> is the effect of that partial row on
  one row: status and \<^verbatim>\<open>updatedAt\<close> always, the completion stamps when the new status is
  \<^verbatim>\<open>completed\<close>, notes and attachments when they are not \<^verbatim>\<open>undefined\<close>. A call is taken to be
  instantaneous: each \<^verbatim>\<open>new Date()\<close> inside one call reads the same instant \<open>now\<close>.
\<close>

definition applyUpdateData ::
  "timestamp \<Rightarrow> status \<Rightarrow> string \<Rightarrow> string option \<Rightarrow> attachment list option
     \<Rightarrow> tenantCompliance \<Rightarrow> tenantCompliance" where
  "applyUpdateData now st userId notes atts r =
     (let r1 = r\<lparr>tc_status := st, tc_updatedAt := Some now\<rparr>;
          r2 = (if st = completed
                then r1\<lparr>tc_completedAt := Some now, tc_completedBy := Some userId\<rparr>
                else r1);
          r3 = (case notes of None \<Rightarrow> r2 | Some n \<Rightarrow> r2\<lparr>tc_notes := Some n\<rparr>);
          r4 = (case atts of None \<Rightarrow> r3 | Some a \<Rightarrow> r3\<lparr>tc_attachments := Some a\<rparr>)
      in r4)"

definition updateComplianceStatus ::
  "db option \<Rightarrow> timestamp \<Rightarrow> string \<Rightarrow> status \<Rightarrow> string \<Rightarrow> string option
     \<Rightarrow> attachment list option \<Rightarrow> error + db" where
  "updateComplianceStatus dbo now complianceId st userId notes atts =
     (case dbo of
        None \<Rightarrow> Inl DatabaseNotAvailable
      | Some d \<Rightarrow>
          Inr (d\<lparr>tenantComplianceRows :=
                 map (\<lambda>r. if tc_id r = complianceId
                          then applyUpdateData now st userId notes atts r else r)
                   (tenantComplianceRows d)\<rparr>))"

section \<open>Tracking initialization\<close>

text \<open>
  \<^verbatim>\<open>initializeTenantCompliance\<close> looks the checklist up by id (\<^verbatim>\<open>.limit(1)\<close>: the first
  matching row), walks its sections and their items in order and pushes one record per item;
  the records are inserted in one statement when there is at least one. Two things come
  from the environment: \<open>nanoid\<close>, where \<open>nanoid k\<close> is the id returned by the \<open>k\<close>-th call
  of \<^verbatim>\<open>nanoid()\<close> made by this call, and \<open>parseDate\<close>, the parser behind \<^verbatim>\<open>new Date(s)\<close>: the
  time value of the date string \<open>s\<close>, or \<open>None\<close> when \<open>s\<close> is not a date, in which case the
  object built is an \<^verbatim>\<open>Invalid Date\<close>. The test \<^verbatim>\<open>item.dueDate ? ... : null\<close> is JavaScript
  truthiness: an absent \<^verbatim>\<open>dueDate\<close> and the empty string both give \<^verbatim>\<open>null\<close>.

  The records pushed are of the insert type, whose date columns hold \<^verbatim>\<open>Date\<close> objects. The
  insert serializes every date column of every record before anything is written; an
  \<^verbatim>\<open>Invalid Date\<close> makes that throw, and then no row is written.
\<close>

datatype jsDate = DateAt timestamp | InvalidDate

definition newDateFromString :: "(string \<Rightarrow> timestamp option) \<Rightarrow> string \<Rightarrow> jsDate" where
  "newDateFromString parseDate s =
     (case parseDate s of None \<Rightarrow> InvalidDate | Some t \<Rightarrow> DateAt t)"

record InsertTenantCompliance =
  ins_id :: string
  ins_tenantId :: string
  ins_checklistId :: string
  ins_itemId :: string
  ins_status :: status
  ins_notes :: "string option"
  ins_attachments :: "attachment list option"
  ins_completedAt :: "jsDate option"
  ins_completedBy :: "string option"
  ins_nextDueDate :: "jsDate option"
  ins_reminderSent :: bool
  ins_createdAt :: "jsDate option"
  ins_updatedAt :: "jsDate option"

definition nextDueDateOfItem :: "(string \<Rightarrow> timestamp option) \<Rightarrow> item \<Rightarrow> jsDate option" where
  "nextDueDateOfItem parseDate it =
     (case it_dueDate it of
        None \<Rightarrow> None
      | Some s \<Rightarrow> if s = [] then None else Some (newDateFromString parseDate s))"

definition newTrackingRecord ::
  "(string \<Rightarrow> timestamp option) \<Rightarrow> timestamp \<Rightarrow> string \<Rightarrow> string \<Rightarrow> string \<Rightarrow> item
     \<Rightarrow> InsertTenantCompliance" where
  "newTrackingRecord parseDate now tenantId checklistId rid it =
     \<lparr>ins_id = rid,
      ins_tenantId = tenantId,
      ins_checklistId = checklistId,
      ins_itemId = it_id it,
      ins_status = not_started,
      ins_notes = None,
      ins_attachments = None,
      ins_completedAt = None,
      ins_completedBy = None,
      ins_nextDueDate = nextDueDateOfItem parseDate it,
      ins_reminderSent = False,
      ins_createdAt = Some (DateAt now),
      ins_updatedAt = Some (DateAt now)\<rparr>"

definition itemsOfSections :: "section_row list \<Rightarrow> item list" where
  "itemsOfSections sections = concat (map sec_items sections)"

definition buildComplianceRecords ::
  "(string \<Rightarrow> timestamp option) \<Rightarrow> (nat \<Rightarrow> string) \<Rightarrow> timestamp \<Rightarrow> string \<Rightarrow> string
     \<Rightarrow> section_row list \<Rightarrow> InsertTenantCompliance list" where
  "buildComplianceRecords parseDate nanoid now tenantId checklistId sections =
     map (\<lambda>(k, it). newTrackingRecord parseDate now tenantId checklistId (nanoid k) it)
       (enumerate 0 (itemsOfSections sections))"

text \<open>The serialization of a date column, and of a record into the row that is stored.\<close>

definition serializeDate :: "jsDate option \<Rightarrow> error + timestamp option" where
  "serializeDate v =
     (case v of
        None \<Rightarrow> Inr None
      | Some InvalidDate \<Rightarrow> Inl InvalidTimeValue
      | Some (DateAt t) \<Rightarrow> Inr (Some t))"

definition serializeRecord :: "InsertTenantCompliance \<Rightarrow> error + tenantCompliance" where
  "serializeRecord r =
     (case serializeDate (ins_completedAt r) of
        Inl e \<Rightarrow> Inl e
      | Inr completedAt \<Rightarrow>
     (case serializeDate (ins_nextDueDate r) of
        Inl e \<Rightarrow> Inl e
      | Inr nextDueDate \<Rightarrow>
     (case serializeDate (ins_createdAt r) of
        Inl e \<Rightarrow> Inl e
      | Inr createdAt \<Rightarrow>
     (case serializeDate (ins_updatedAt r) of
        Inl e \<Rightarrow> Inl e
      | Inr updatedAt \<Rightarrow>
          Inr \<lparr>tc_id = ins_id r,
               tc_tenantId = ins_tenantId r,
               tc_checklistId = ins_checklistId r,
               tc_itemId = ins_itemId r,
               tc_status = ins_status r,
               tc_completedAt = completedAt,
               tc_completedBy = ins_completedBy r,
               tc_notes = ins_notes r,
               tc_attachments = ins_attachments r,
               tc_nextDueDate = nextDueDate,
               tc_reminderSent = ins_reminderSent r,
               tc_createdAt = createdAt,
               tc_updatedAt = updatedAt\<rparr>))))"

fun serializeRecords :: "InsertTenantCompliance list \<Rightarrow> error + tenantCompliance list" where
  "serializeRecords [] = Inr []"
| "serializeRecords (r # rs) =
     (case serializeRecord r of
        Inl e \<Rightarrow> Inl e
      | Inr row \<Rightarrow>
          (case serializeRecords rs of
             Inl e \<Rightarrow> Inl e
           | Inr rows \<Rightarrow> Inr (row # rows)))"

definition insertTenantCompliance :: "db \<Rightarrow> InsertTenantCompliance list \<Rightarrow> error + db" where
  "insertTenantCompliance d values =
     (case serializeRecords values of
        Inl e \<Rightarrow> Inl e
      | Inr rows \<Rightarrow> Inr (d\<lparr>tenantComplianceRows := tenantComplianceRows d @ rows\<rparr>))"

definition initializeTenantCompliance ::
  "(string \<Rightarrow> timestamp option) \<Rightarrow> (nat \<Rightarrow> string) \<Rightarrow> db option \<Rightarrow> timestamp \<Rightarrow> string
     \<Rightarrow> string \<Rightarrow> error + db" where
  "initializeTenantCompliance parseDate nanoid dbo now tenantId checklistId =
     (case dbo of
        None \<Rightarrow> Inl DatabaseNotAvailable
      | Some d \<Rightarrow>
          (case take 1 (filter (\<lambda>c. cl_id c = checklistId) (complianceChecklists d)) of
             [] \<Rightarrow> Inl ChecklistNotFound
           | checklist # _ \<Rightarrow>
               (let complianceRecords =
                      buildComplianceRecords parseDate nanoid now tenantId checklistId
                        (cl_sections checklist)
                in if length complianceRecords > 0
                   then insertTenantCompliance d complianceRecords
                   else Inr d)))"

text \<open>
  Two notions for stating what initialization stores: an item whose \<^verbatim>\<open>dueDate\<close> is a
  non-empty string that is not a date, and the row stored for an item that is not of that
  kind.
\<close>

definition dueDateUnparseable :: "(string \<Rightarrow> timestamp option) \<Rightarrow> item \<Rightarrow> bool" where
  "dueDateUnparseable parseDate it \<longleftrightarrow>
     (case it_dueDate it of None \<Rightarrow> False | Some s \<Rightarrow> s \<noteq> [] \<and> parseDate s = None)"

definition rowOfItem ::
  "(string \<Rightarrow> timestamp option) \<Rightarrow> timestamp \<Rightarrow> string \<Rightarrow> string \<Rightarrow> string \<Rightarrow> item
     \<Rightarrow> tenantCompliance" where
  "rowOfItem parseDate now tenantId checklistId rid it =
     \<lparr>tc_id = rid,
      tc_tenantId = tenantId,
      tc_checklistId = checklistId,
      tc_itemId = it_id it,
      tc_status = not_started,
      tc_completedAt = None,
      tc_completedBy = None,
      tc_notes = None,
      tc_attachments = None,
      tc_nextDueDate =
        (case it_dueDate it of None \<Rightarrow> None | Some s \<Rightarrow> if s = [] then None else parseDate s),
      tc_reminderSent = False,
      tc_createdAt = Some now,
      tc_updatedAt = Some now\<rparr>"

subsection \<open>Histories of the tracking table\<close>

text \<open>
  The two operations that write the tracking table, as commands; a call that throws leaves
  the database as it was. \<open>run\<close> executes a history of calls from a starting database.
\<close>

datatype op =
    Initialize "nat \<Rightarrow> string" timestamp string string
  | UpdateStatus timestamp string status string "string option" "attachment list option"

fun step :: "(string \<Rightarrow> timestamp option) \<Rightarrow> db \<Rightarrow> op \<Rightarrow> db" where
  "step parseDate d (Initialize nanoid now tenantId checklistId) =
     (case initializeTenantCompliance parseDate nanoid (Some d) now tenantId checklistId of
        Inl _ \<Rightarrow> d | Inr d' \<Rightarrow> d')"
| "step parseDate d (UpdateStatus now complianceId st userId notes atts) =
     (case updateComplianceStatus (Some d) now complianceId st userId notes atts of
        Inl _ \<Rightarrow> d | Inr d' \<Rightarrow> d')"

definition run :: "(string \<Rightarrow> timestamp option) \<Rightarrow> db \<Rightarrow> op list \<Rightarrow> db" where
  "run parseDate d ops = foldl (step parseDate) d ops"

section \<open>Reading the tracking table\<close>

text \<open>
  \<^verbatim>\<open>getTenantComplianceStatus\<close> selects the rows of a tenant, narrowed to one checklist when
  \<^verbatim>\<open>checklistId\<close> is truthy (given and not the empty string).
\<close>

definition getTenantComplianceStatus ::
  "db option \<Rightarrow> string \<Rightarrow> string option \<Rightarrow> error + tenantCompliance list" where
  "getTenantComplianceStatus dbo tenantId checklistId =
     (case dbo of
        None \<Rightarrow> Inl DatabaseNotAvailable
      | Some d \<Rightarrow>
          Inr (filter
                 (\<lambda>r. tc_tenantId r = tenantId \<and>
                      (case checklistId of
                         None \<Rightarrow> True
                       | Some c \<Rightarrow> c = [] \<or> tc_checklistId r = c))
                 (tenantComplianceRows d)))"

section \<open>Statistics\<close>

text \<open>
  The counts of \<^verbatim>\<open>getComplianceStats\<close> are array lengths. The completion rate is computed in
  double precision: \<^verbatim>\<open>Math.round((stats.completed / stats.total) * 100)\<close>. The rounding of a
  real to a double is the parameter \<open>fl\<close> (the identity gives exact arithmetic), applied after
  the division and after the multiplication; \<^verbatim>\<open>Math.round\<close> rounds to the nearest integer,
  a tie towards \<open>+\<infinity>\<close>. \<open>computeStats\<close> is the computation on the rows that
  \<^verbatim>\<open>getComplianceStats\<close> reads.
\<close>

record ComplianceStats =
  st_total :: nat
  st_completed :: nat
  st_inProgress :: nat
  st_notStarted :: nat
  st_overdue :: nat
  st_completionRate :: int

definition Math_round :: "real \<Rightarrow> int" where
  "Math_round x = \<lfloor>x + 1 / 2\<rfloor>"

definition computeStats ::
  "(real \<Rightarrow> real) \<Rightarrow> timestamp \<Rightarrow> tenantCompliance list \<Rightarrow> ComplianceStats" where
  "computeStats fl now items =
     (let stats =
        \<lparr>st_total = length items,
         st_completed = length (filter (\<lambda>i. tc_status i = completed) items),
         st_inProgress = length (filter (\<lambda>i. tc_status i = in_progress) items),
         st_notStarted = length (filter (\<lambda>i. tc_status i = not_started) items),
         st_overdue =
           length (filter
             (\<lambda>i. (case tc_nextDueDate i of None \<Rightarrow> False | Some due \<Rightarrow> due < now) \<and>
                  tc_status i \<noteq> completed \<and> tc_status i \<noteq> skipped) items),
         st_completionRate = 0\<rparr>
      in if st_total stats > 0
         then stats\<lparr>st_completionRate :=
                Math_round (fl (fl (real (st_completed stats) / real (st_total stats)) * 100))\<rparr>
         else stats)"

definition getComplianceStats ::
  "(real \<Rightarrow> real) \<Rightarrow> db option \<Rightarrow> timestamp \<Rightarrow> string \<Rightarrow> string option
     \<Rightarrow> error + ComplianceStats" where
  "getComplianceStats fl dbo now tenantId checklistId =
     (case getTenantComplianceStatus dbo tenantId checklistId of
        Inl e \<Rightarrow> Inl e
      | Inr items \<Rightarrow> Inr (computeStats fl now items))"

section \<open>Checklist templates\<close>

text \<open>
  \<^verbatim>\<open>upsertComplianceChecklist\<close> takes the insert row without \<^verbatim>\<open>id\<close>, \<^verbatim>\<open>createdAt\<close> and
  \<^verbatim>\<open>updatedAt\<close>, draws a fresh id (the argument \<open>checklistId\<close> stands for the value of
  \<^verbatim>\<open>nanoid()\<close>) and inserts one row. It reads neither the table nor the sections.
  \<^verbatim>\<open>isActive\<close> may be left out of the insert row; the column default is \<^verbatim>\<open>true\<close>.
\<close>

record checklistData =
  cd_title :: string
  cd_version :: string
  cd_region :: "string option"
  cd_businessType :: "string option"
  cd_sections :: "section_row list"
  cd_metadata :: "(string \<times> string) list option"
  cd_isActive :: "bool option"

definition upsertComplianceChecklist ::
  "db option \<Rightarrow> timestamp \<Rightarrow> string \<Rightarrow> checklistData \<Rightarrow> error + (string \<times> db)" where
  "upsertComplianceChecklist dbo now checklistId data =
     (case dbo of
        None \<Rightarrow> Inl DatabaseNotAvailable
      | Some d \<Rightarrow>
          Inr (checklistId,
               d\<lparr>complianceChecklists := complianceChecklists d @
                   [\<lparr>cl_id = checklistId,
                     cl_title = cd_title data,
                     cl_version = cd_version data,
                     cl_region = cd_region data,
                     cl_businessType = cd_businessType data,
                     cl_sections = cd_sections data,
                     cl_metadata = cd_metadata data,
                     cl_isActive = (case cd_isActive data of None \<Rightarrow> True | Some b \<Rightarrow> b),
                     cl_createdAt = Some now,
                     cl_updatedAt = Some now\<rparr>]\<rparr>))"

section \<open>Reminders\<close>

definition scheduleReminder ::
  "db option \<Rightarrow> timestamp \<Rightarrow> string \<Rightarrow> string \<Rightarrow> string \<Rightarrow> reminderType \<Rightarrow> timestamp \<Rightarrow> string
     \<Rightarrow> (string \<times> string) list option \<Rightarrow> error + (string \<times> db)" where
  "scheduleReminder dbo now reminderId tenantId complianceId rtype scheduledFor message metadata =
     (case dbo of
        None \<Rightarrow> Inl DatabaseNotAvailable
      | Some d \<Rightarrow>
          Inr (reminderId,
               d\<lparr>complianceReminders := complianceReminders d @
                   [\<lparr>rem_id = reminderId,
                     rem_tenantId = tenantId,
                     rem_complianceId = complianceId,
                     rem_reminderType = rtype,
                     rem_scheduledFor = scheduledFor,
                     rem_sent = False,
                     rem_sentAt = None,
                     rem_message = message,
                     rem_metadata = (case metadata of None \<Rightarrow> [] | Some m \<Rightarrow> m),
                     rem_createdAt = Some now\<rparr>]\<rparr>))"

text \<open>
  \<^verbatim>\<open>markReminderSent\<close> writes \<^verbatim>\<open>sent: true, sentAt: new Date()\<close> to every row with the given
  id, whatever the row held before.
\<close>

definition markReminderSent :: "db option \<Rightarrow> timestamp \<Rightarrow> string \<Rightarrow> error + db" where
  "markReminderSent dbo now reminderId =
     (case dbo of
        None \<Rightarrow> Inl DatabaseNotAvailable
      | Some d \<Rightarrow>
          Inr (d\<lparr>complianceReminders :=
                 map (\<lambda>r. if rem_id r = reminderId
                          then r\<lparr>rem_sent := True, rem_sentAt := Some now\<rparr> else r)
                   (complianceReminders d)\<rparr>))"

section \<open>Dates\<close>

text \<open>
  The part of the ECMAScript \<^verbatim>\<open>Date\<close> object the service uses, on integer time values. The
  dates of this section are built from the clock and from stored rows, so none is an
  \<^verbatim>\<open>Invalid Date\<close> (that of a date string is \<open>InvalidDate\<close> above); the range limit of
  \<^verbatim>\<open>TimeClip\<close> is left out. The names are those of the language specification. The local
  time zone is the parameter \<open>tza\<close>: \<open>tza t True\<close> is
  the offset of local time at the UTC time \<open>t\<close>, \<open>tza t False\<close> the offset at the local time
  \<open>t\<close>.
\<close>

definition msPerDay :: int where
  "msPerDay = 1000 * 60 * 60 * 24"

definition Day :: "int \<Rightarrow> int" where
  "Day t = t div msPerDay"

definition TimeWithinDay :: "int \<Rightarrow> int" where
  "TimeWithinDay t = t mod msPerDay"

definition DaysInYear :: "int \<Rightarrow> int" where
  "DaysInYear y =
     (if y mod 4 \<noteq> 0 then 365
      else if y mod 100 \<noteq> 0 then 366
      else if y mod 400 \<noteq> 0 then 365
      else 366)"

definition DayFromYear :: "int \<Rightarrow> int" where
  "DayFromYear y =
     365 * (y - 1970) + (y - 1969) div 4 - (y - 1901) div 100 + (y - 1601) div 400"

text \<open>
  \<^verbatim>\<open>YearFromTime(t)\<close> is the largest year whose first day is not after \<open>t\<close>. It is computed
  from an estimate with the mean length of a year (146097 days in 400 years), which is off
  by at most one.
\<close>

definition YearFromDay :: "int \<Rightarrow> int" where
  "YearFromDay d =
     (let e = 1970 + (d * 400) div 146097
      in if d < DayFromYear e then e - 1
         else if DayFromYear (e + 1) \<le> d then e + 1
         else e)"

definition YearFromTime :: "int \<Rightarrow> int" where
  "YearFromTime t = YearFromDay (Day t)"

definition InLeapYear :: "int \<Rightarrow> int" where
  "InLeapYear t = (if DaysInYear (YearFromTime t) = 366 then 1 else 0)"

definition DayWithinYear :: "int \<Rightarrow> int" where
  "DayWithinYear t = Day t - DayFromYear (YearFromTime t)"

definition MonthFromTime :: "int \<Rightarrow> int" where
  "MonthFromTime t =
     (let d = DayWithinYear t; l = InLeapYear t
      in if d < 31 then 0
         else if d < 59 + l then 1
         else if d < 90 + l then 2
         else if d < 120 + l then 3
         else if d < 151 + l then 4
         else if d < 181 + l then 5
         else if d < 212 + l then 6
         else if d < 243 + l then 7
         else if d < 273 + l then 8
         else if d < 304 + l then 9
         else if d < 334 + l then 10
         else 11)"

definition DateFromTime :: "int \<Rightarrow> int" where
  "DateFromTime t =
     (let d = DayWithinYear t; l = InLeapYear t; m = MonthFromTime t
      in if m = 0 then d + 1
         else if m = 1 then d - 30
         else if m = 2 then d - 58 - l
         else if m = 3 then d - 89 - l
         else if m = 4 then d - 119 - l
         else if m = 5 then d - 150 - l
         else if m = 6 then d - 180 - l
         else if m = 7 then d - 211 - l
         else if m = 8 then d - 242 - l
         else if m = 9 then d - 272 - l
         else if m = 10 then d - 303 - l
         else d - 333 - l)"

text \<open>The day number of the first day of month \<open>mn\<close> (0 to 11) of year \<open>ym\<close>.\<close>

definition DayOfMonthStart :: "int \<Rightarrow> int \<Rightarrow> int" where
  "DayOfMonthStart ym mn =
     (let l = (if DaysInYear ym = 366 then 1 else 0)
      in DayFromYear ym +
         (if mn = 0 then 0
          else if mn = 1 then 31
          else if mn = 2 then 59 + l
          else if mn = 3 then 90 + l
          else if mn = 4 then 120 + l
          else if mn = 5 then 151 + l
          else if mn = 6 then 181 + l
          else if mn = 7 then 212 + l
          else if mn = 8 then 243 + l
          else if mn = 9 then 273 + l
          else if mn = 10 then 304 + l
          else 334 + l))"

definition MakeDay :: "int \<Rightarrow> int \<Rightarrow> int \<Rightarrow> int" where
  "MakeDay year month date =
     (let ym = year + month div 12; mn = month mod 12
      in DayOfMonthStart ym mn + date - 1)"

definition MakeDate :: "int \<Rightarrow> int \<Rightarrow> int" where
  "MakeDate day time = day * msPerDay + time"

definition LocalTime :: "(int \<Rightarrow> bool \<Rightarrow> int) \<Rightarrow> int \<Rightarrow> int" where
  "LocalTime tza t = t + tza t True"

definition UTC :: "(int \<Rightarrow> bool \<Rightarrow> int) \<Rightarrow> int \<Rightarrow> int" where
  "UTC tza t = t - tza t False"

text \<open>
  \<^verbatim>\<open>new Date(year, month, date)\<close>: local midnight of that day; a year from 0 to 99 means
  1900 + year.
\<close>

definition newDate :: "(int \<Rightarrow> bool \<Rightarrow> int) \<Rightarrow> int \<Rightarrow> int \<Rightarrow> int \<Rightarrow> timestamp" where
  "newDate tza year month date =
     (let yr = (if 0 \<le> year \<and> year \<le> 99 then 1900 + year else year)
      in UTC tza (MakeDate (MakeDay yr month date) 0))"

definition getFullYear :: "(int \<Rightarrow> bool \<Rightarrow> int) \<Rightarrow> timestamp \<Rightarrow> int" where
  "getFullYear tza t = YearFromTime (LocalTime tza t)"

definition getMonth :: "(int \<Rightarrow> bool \<Rightarrow> int) \<Rightarrow> timestamp \<Rightarrow> int" where
  "getMonth tza t = MonthFromTime (LocalTime tza t)"

definition getDate :: "(int \<Rightarrow> bool \<Rightarrow> int) \<Rightarrow> timestamp \<Rightarrow> int" where
  "getDate tza t = DateFromTime (LocalTime tza t)"

definition setDate :: "(int \<Rightarrow> bool \<Rightarrow> int) \<Rightarrow> timestamp \<Rightarrow> int \<Rightarrow> timestamp" where
  "setDate tza this dt =
     (let t = LocalTime tza this
      in UTC tza (MakeDate (MakeDay (YearFromTime t) (MonthFromTime t) dt) (TimeWithinDay t)))"

definition setMonth :: "(int \<Rightarrow> bool \<Rightarrow> int) \<Rightarrow> timestamp \<Rightarrow> int \<Rightarrow> timestamp" where
  "setMonth tza this m =
     (let t = LocalTime tza this
      in UTC tza (MakeDate (MakeDay (YearFromTime t) m (DateFromTime t)) (TimeWithinDay t)))"

definition setFullYear :: "(int \<Rightarrow> bool \<Rightarrow> int) \<Rightarrow> timestamp \<Rightarrow> int \<Rightarrow> timestamp" where
  "setFullYear tza this y =
     (let t = LocalTime tza this
      in UTC tza (MakeDate (MakeDay y (MonthFromTime t) (DateFromTime t)) (TimeWithinDay t)))"

section \<open>Deadline projection\<close>








section \<open>Quarterly tax reminders\<close>

text \<open>
  \<^verbatim>\<open>scheduleQuarterlyTaxReminders\<close> builds the four quarters from the local year of the
  clock and schedules a reminder for each quarter whose date is after \<open>now\<close>, in order. The
  loop threads the database through the calls of \<open>scheduleReminder\<close>; \<open>k\<close> counts the ids
  drawn from \<open>nanoid\<close>. A call that schedules nothing never asks for the database, so the
  loop returns the \<open>db option\<close> it holds. The formatting of dates is the environment's:
  \<open>toLocaleDateString\<close> and \<open>toISOString\<close> are parameters.
\<close>

record quarter =
  q_date :: timestamp
  q_name :: string

definition quarters :: "(int \<Rightarrow> bool \<Rightarrow> int) \<Rightarrow> int \<Rightarrow> quarter list" where
  "quarters tza currentYear =
     [\<lparr>q_date = newDate tza currentYear 3 15, q_name = ''Q1''\<rparr>,
      \<lparr>q_date = newDate tza currentYear 5 15, q_name = ''Q2''\<rparr>,
      \<lparr>q_date = newDate tza currentYear 8 15, q_name = ''Q3''\<rparr>,
      \<lparr>q_date = newDate tza (currentYear + 1) 0 15, q_name = ''Q4''\<rparr>]"

definition reminderMessage :: "(timestamp \<Rightarrow> string) \<Rightarrow> quarter \<Rightarrow> string" where
  "reminderMessage toLocaleDateString q =
     ''Reminder: '' @ q_name q @ '' estimated taxes are due on '' @ toLocaleDateString (q_date q)"

fun scheduleQuarters ::
  "(int \<Rightarrow> bool \<Rightarrow> int) \<Rightarrow> (timestamp \<Rightarrow> string) \<Rightarrow> (timestamp \<Rightarrow> string) \<Rightarrow> (nat \<Rightarrow> string)
     \<Rightarrow> timestamp \<Rightarrow> string \<Rightarrow> string \<Rightarrow> db option \<Rightarrow> nat \<Rightarrow> quarter list
     \<Rightarrow> error + db option" where
  "scheduleQuarters tza toLocaleDateString toISOString nanoid now tenantId complianceId dbo k [] =
     Inr dbo"
| "scheduleQuarters tza toLocaleDateString toISOString nanoid now tenantId complianceId dbo k
     (q # qs) =
     (if q_date q > now
      then (let reminderDate = setDate tza (q_date q) (getDate tza (q_date q) - 7)
            in case scheduleReminder dbo now (nanoid k) tenantId complianceId email reminderDate
                      (reminderMessage toLocaleDateString q)
                      (Some [(''quarter'', q_name q), (''dueDate'', toISOString (q_date q))]) of
                 Inl e \<Rightarrow> Inl e
               | Inr (_, d') \<Rightarrow>
                   scheduleQuarters tza toLocaleDateString toISOString nanoid now tenantId
                     complianceId (Some d') (Suc k) qs)
      else scheduleQuarters tza toLocaleDateString toISOString nanoid now tenantId
             complianceId dbo k qs)"

definition scheduleQuarterlyTaxReminders ::
  "(int \<Rightarrow> bool \<Rightarrow> int) \<Rightarrow> (timestamp \<Rightarrow> string) \<Rightarrow> (timestamp \<Rightarrow> string) \<Rightarrow> (nat \<Rightarrow> string)
     \<Rightarrow> db option \<Rightarrow> timestamp \<Rightarrow> string \<Rightarrow> string \<Rightarrow> error + db option" where
  "scheduleQuarterlyTaxReminders tza toLocaleDateString toISOString nanoid dbo now tenantId
     complianceId =
     (let currentYear = getFullYear tza now
      in scheduleQuarters tza toLocaleDateString toISOString nanoid now tenantId complianceId
           dbo 0 (quarters tza currentYear))"

text \<open>
  The row that one turn of the loop hands to \<^verbatim>\<open>scheduleReminder\<close> for the quarter \<open>q\<close>, with
  the id \<open>rid\<close> drawn for it.
\<close>

definition quarterReminder ::
  "(int \<Rightarrow> bool \<Rightarrow> int) \<Rightarrow> (timestamp \<Rightarrow> string) \<Rightarrow> (timestamp \<Rightarrow> string) \<Rightarrow> timestamp
     \<Rightarrow> string \<Rightarrow> string \<Rightarrow> string \<Rightarrow> quarter \<Rightarrow> complianceReminder" where
  "quarterReminder tza toLocaleDateString toISOString now tenantId complianceId rid q =
     \<lparr>rem_id = rid,
      rem_tenantId = tenantId,
      rem_complianceId = complianceId,
      rem_reminderType = email,
      rem_scheduledFor = setDate tza (q_date q) (getDate tza (q_date q) - 7),
      rem_sent = False,
      rem_sentAt = None,
      rem_message = reminderMessage toLocaleDateString q,
      rem_metadata = [(''quarter'', q_name q), (''dueDate'', toISOString (q_date q))],
      rem_createdAt = Some now\<rparr>"

section \<open>Recurrence projection\<close>

text \<open>
  \<^verbatim>\<open>calculateNextDueDate\<close>: \<^verbatim>\<open>null\<close> for a one-time item; otherwise a copy of the base date
  (the last due date, or the clock when there is none) moved by \<^verbatim>\<open>setMonth\<close> or
  \<^verbatim>\<open>setFullYear\<close>.
\<close>

definition calculateNextDueDate ::
  "(int \<Rightarrow> bool \<Rightarrow> int) \<Rightarrow> timestamp \<Rightarrow> frequency \<Rightarrow> timestamp option \<Rightarrow> timestamp option" where
  "calculateNextDueDate tza now freq lastDueDate =
     (if freq = once then None
      else
        (let baseDate = (case lastDueDate of None \<Rightarrow> now | Some d \<Rightarrow> d);
             nextDate = baseDate
         in case freq of
              monthly \<Rightarrow> Some (setMonth tza nextDate (getMonth tza nextDate + 1))
            | quarterly \<Rightarrow> Some (setMonth tza nextDate (getMonth tza nextDate + 3))
            | annually \<Rightarrow> Some (setFullYear tza nextDate (getFullYear tza nextDate + 1))
            | once \<Rightarrow> Some nextDate))"

text \<open>
  The specification's reading of the recurrence, to compare with: a date moved on by \<open>n\<close>
  calendar months under the month rollover of the date library, that is, by setting the
  month field to the current month plus \<open>n\<close>.
\<close>

definition addCalendarMonths :: "(int \<Rightarrow> bool \<Rightarrow> int) \<Rightarrow> int \<Rightarrow> timestamp \<Rightarrow> timestamp" where
  "addCalendarMonths tza n d = setMonth tza d (getMonth tza d + n)"

section \<open>The RPC procedure for status updates\<close>

text \<open>
  \<^verbatim>\<open>tenantService.getTenantForUser\<close> returns the tenant, its enabled modules and the user's
  role when the tenant exists and the user is linked to it, and \<^verbatim>\<open>null\<close> otherwise. The
  procedure \<^verbatim>\<open>updateStatus\<close> of the router throws \<^verbatim>\<open>Unauthorized\<close> on \<^verbatim>\<open>null\<close> and then
  delegates to the service with the record id of the input; \<open>userId\<close> is \<^verbatim>\<open>ctx.user.id\<close>.
\<close>

record TenantWithModules =
  twm_tenant :: tenant
  twm_modules :: "tenantModule list"
  twm_userRole :: role

definition getTenantForUser ::
  "db option \<Rightarrow> string \<Rightarrow> string \<Rightarrow> error + TenantWithModules option" where
  "getTenantForUser dbo userId tenantId =
     (case dbo of
        None \<Rightarrow> Inl DatabaseNotAvailable
      | Some d \<Rightarrow>
          (case take 1 (filter (\<lambda>t. tn_id t = tenantId) (tenants d)) of
             [] \<Rightarrow> Inr None
           | tenantResult # _ \<Rightarrow>
               (case take 1 (filter (\<lambda>u. ut_userId u = userId \<and> ut_tenantId u = tenantId)
                               (userTenants d)) of
                  [] \<Rightarrow> Inr None
                | userTenantResult # _ \<Rightarrow>
                    Inr (Some
                      \<lparr>twm_tenant = tenantResult,
                       twm_modules =
                         filter (\<lambda>m. tm_tenantId m = tenantId \<and> tm_enabled m = True)
                           (tenantModules d),
                       twm_userRole = ut_role userTenantResult\<rparr>))))"

record updateStatusInput =
  in_tenantId :: string
  in_complianceId :: string
  in_status :: status
  in_notes :: "string option"
  in_attachments :: "attachment list option"

definition router_updateStatus ::
  "db option \<Rightarrow> timestamp \<Rightarrow> string \<Rightarrow> updateStatusInput \<Rightarrow> error + (bool \<times> db)" where
  "router_updateStatus dbo now userId input =
     (case getTenantForUser dbo userId (in_tenantId input) of
        Inl e \<Rightarrow> Inl e
      | Inr None \<Rightarrow> Inl Unauthorized
      | Inr (Some tenant) \<Rightarrow>
          (case updateComplianceStatus dbo now (in_complianceId input) (in_status input) userId
                  (in_notes input) (in_attachments input) of
             Inl e \<Rightarrow> Inl e
           | Inr d' \<Rightarrow> Inr (True, d')))"

section \<open>The completion stamps of a record\<close>

text \<open>
  What every record of a history satisfies: a completed record carries both stamps, and
  the two stamps are set or unset together.
\<close>

definition completion_inv :: "tenantCompliance \<Rightarrow> bool" where
  "completion_inv r \<longleftrightarrow>
     (tc_status r = completed \<longrightarrow> tc_completedAt r \<noteq> None \<and> tc_completedBy r \<noteq> None) \<and>
     (tc_completedAt r = None \<longleftrightarrow> tc_completedBy r = None)"

section \<open>Example data\<close>

text \<open>Concrete rows and databases on which the properties below are evaluated.\<close>

definition emptyDb :: db where
  "emptyDb =
     \<lparr>complianceChecklists = [], tenantComplianceRows = [], complianceReminders = [],
      tenants = [], userTenants = [], tenantModules = []\<rparr>"

definition skippedRecord :: tenantCompliance where
  "skippedRecord =
     \<lparr>tc_id = ''r1'', tc_tenantId = ''T1'', tc_checklistId = ''c1'', tc_itemId = ''A1'',
      tc_status = skipped, tc_completedAt = None, tc_completedBy = None, tc_notes = None,
      tc_attachments = None, tc_nextDueDate = None, tc_reminderSent = False,
      tc_createdAt = Some 0, tc_updatedAt = Some 0\<rparr>"

definition threeRecords :: "tenantCompliance list" where
  "threeRecords =
     [skippedRecord,
      skippedRecord\<lparr>tc_id := ''r2'', tc_itemId := ''B1'', tc_status := completed,
        tc_completedAt := Some 5, tc_completedBy := Some ''U1''\<rparr>,
      skippedRecord\<lparr>tc_id := ''r3'', tc_itemId := ''C1'', tc_status := in_progress\<rparr>]"

definition itemA1 :: item where
  "itemA1 =
     \<lparr>it_id = ''A1'', it_label = ''Register the business name'', it_details = ''County clerk'',
      it_link = None, it_note = None, it_frequency = Some once,
      it_dueDate = Some ''2025-01-31''\<rparr>"

definition itemB1 :: item where
  "itemB1 = itemA1\<lparr>it_id := ''B1'', it_label := ''Estimated taxes'',
     it_frequency := Some quarterly, it_dueDate := None\<rparr>"

definition itemC1 :: item where
  "itemC1 = itemA1\<lparr>it_id := ''C1'', it_label := ''Renew the licence'',
     it_frequency := Some annually, it_dueDate := None\<rparr>"

definition checklist1 :: complianceChecklist where
  "checklist1 =
     \<lparr>cl_id = ''c1'', cl_title = ''Startup checklist'', cl_version = ''1.0'',
      cl_region = None, cl_businessType = None,
      cl_sections =
        [\<lparr>sec_id = ''s1'', sec_title = ''Start'', sec_description = ''First steps'',
          sec_items = [itemA1, itemB1]\<rparr>,
         \<lparr>sec_id = ''s2'', sec_title = ''Keep up'', sec_description = ''Recurring'',
          sec_items = [itemC1]\<rparr>],
      cl_metadata = None, cl_isActive = True,
      cl_createdAt = Some 0, cl_updatedAt = Some 0\<rparr>"

definition dbWithChecklist :: db where
  "dbWithChecklist = emptyDb\<lparr>complianceChecklists := [checklist1]\<rparr>"

definition exampleParseDate :: "string \<Rightarrow> timestamp option" where
  "exampleParseDate s = (if s = ''2025-01-31'' then Some 1738281600000 else None)"

definition exampleNanoid :: "nat \<Rightarrow> string" where
  "exampleNanoid k =
     (if k = 0 then ''r0'' else if k = 1 then ''r1'' else if k = 2 then ''r2''
      else ''r3'' @ replicate (k - 3) (CHR ''+''))"

definition recordA1 :: tenantCompliance where
  "recordA1 =
     \<lparr>tc_id = ''r0'', tc_tenantId = ''T1'', tc_checklistId = ''c1'', tc_itemId = ''A1'',
      tc_status = not_started, tc_completedAt = None, tc_completedBy = None,
      tc_notes = Some ''call the county clerk'', tc_attachments = None,
      tc_nextDueDate = Some 1738281600000, tc_reminderSent = False,
      tc_createdAt = Some 0, tc_updatedAt = Some 0\<rparr>"

definition dbWithRecord :: db where
  "dbWithRecord = emptyDb\<lparr>tenantComplianceRows := [recordA1]\<rparr>"

definition reopenHistory :: "op list" where
  "reopenHistory =
     [Initialize exampleNanoid 0 ''T1'' ''c1'',
      UpdateStatus 10 ''r0'' completed ''U1'' None None,
      UpdateStatus 20 ''r0'' in_progress ''U1'' None None]"

definition itemEmptyDue :: item where
  "itemEmptyDue = itemA1\<lparr>it_dueDate := Some ''''\<rparr>"

definition itemUnparseableDue :: item where
  "itemUnparseableDue = itemA1\<lparr>it_dueDate := Some ''soon''\<rparr>"

definition dbUnparseableDue :: db where
  "dbUnparseableDue =
     emptyDb\<lparr>complianceChecklists :=
       [checklist1\<lparr>cl_sections :=
          [\<lparr>sec_id = ''s1'', sec_title = ''Start'', sec_description = ''First steps'',
            sec_items = [itemB1, itemUnparseableDue]\<rparr>]\<rparr>]\<rparr>"

definition dbEmptyDue :: db where
  "dbEmptyDue =
     emptyDb\<lparr>complianceChecklists :=
       [checklist1\<lparr>cl_sections :=
          [\<lparr>sec_id = ''s1'', sec_title = ''Start'', sec_description = ''First steps'',
            sec_items = [itemEmptyDue]\<rparr>]\<rparr>]\<rparr>"

definition duplicateIdData :: checklistData where
  "duplicateIdData =
     \<lparr>cd_title = ''Startup checklist'', cd_version = ''1.0'', cd_region = None,
      cd_businessType = None,
      cd_sections =
        [\<lparr>sec_id = ''s1'', sec_title = ''Start'', sec_description = ''First steps'',
          sec_items = [itemA1, itemA1\<lparr>it_label := ''Open a bank account''\<rparr>]\<rparr>],
      cd_metadata = None, cd_isActive = None\<rparr>"

definition reminder1 :: complianceReminder where
  "reminder1 =
     \<lparr>rem_id = ''m1'', rem_tenantId = ''T1'', rem_complianceId = ''r0'',
      rem_reminderType = email, rem_scheduledFor = 50, rem_sent = False, rem_sentAt = None,
      rem_message = ''Due soon'', rem_metadata = [], rem_createdAt = Some 0\<rparr>"

definition dbWithReminder :: db where
  "dbWithReminder = emptyDb\<lparr>complianceReminders := [reminder1]\<rparr>"

definition tenantT1 :: tenant where
  "tenantT1 = \<lparr>tn_id = ''T1'', tn_name = ''Studio One'', tn_slug = ''studio-one'',
     tn_ownerId = ''U1''\<rparr>"

definition tenantT2 :: tenant where
  "tenantT2 = \<lparr>tn_id = ''T2'', tn_name = ''Studio Two'', tn_slug = ''studio-two'',
     tn_ownerId = ''U2''\<rparr>"

definition tenantT3 :: tenant where
  "tenantT3 = \<lparr>tn_id = ''T3'', tn_name = ''Studio Three'', tn_slug = ''studio-three'',
     tn_ownerId = ''U3''\<rparr>"

definition dbTenants :: db where
  "dbTenants =
     emptyDb\<lparr>tenants := [tenantT1, tenantT2, tenantT3],
       userTenants :=
         [\<lparr>ut_id = ''ut1'', ut_userId = ''U1'', ut_tenantId = ''T1'', ut_role = owner\<rparr>,
          \<lparr>ut_id = ''ut2'', ut_userId = ''U2'', ut_tenantId = ''T2'', ut_role = owner\<rparr>,
          \<lparr>ut_id = ''ut3'', ut_userId = ''U1'', ut_tenantId = ''T3'', ut_role = member\<rparr>],
       tenantComplianceRows := [recordA1\<lparr>tc_tenantId := ''T2''\<rparr>]\<rparr>"

definition crossTenantInput :: updateStatusInput where
  "crossTenantInput =
     \<lparr>in_tenantId = ''T1'', in_complianceId = ''r0'', in_status = skipped,
      in_notes = None, in_attachments = None\<rparr>"



definition exampleDateString :: "timestamp \<Rightarrow> string" where
  "exampleDateString t =
     (if t = 1744675200000 then ''4/15/2025''
      else if t = 1749945600000 then ''6/15/2025''
      else if t = 1757894400000 then ''9/15/2025''
      else if t = 1768435200000 then ''1/15/2026''
      else ''?'')"





section \<open>Statistics: the counts and the completion rate\<close>

lemma status_partition_length:
  "length (filter (\<lambda>i. tc_status i = completed) items)
     + length (filter (\<lambda>i. tc_status i = in_progress) items)
     + length (filter (\<lambda>i. tc_status i = not_started) items)
     + length (filter (\<lambda>i. tc_status i = skipped) items) = length items"
proof (induction items)
  case Nil
  show ?case by simp
next
  case (Cons r rs)
  then show ?case by (cases "tc_status r") simp_all
qed

lemma fl_unit_interval:
  assumes "mono fl" "fl 0 = 0" "fl 1 = 1" "0 \<le> x" "x \<le> 1"
  shows "0 \<le> fl x \<and> fl x \<le> (1::real)"
proof -
  have "fl 0 \<le> fl x" using assms(1,4) by (rule monoD)
  moreover have "fl x \<le> fl 1" using assms(1,5) by (rule monoD)
  ultimately show ?thesis using assms(2,3) by simp
qed

lemma fl_percent_interval:
  assumes "mono fl" "fl 0 = 0" "fl 100 = 100" "0 \<le> x" "x \<le> 100"
  shows "0 \<le> fl x \<and> fl x \<le> (100::real)"
proof -
  have "fl 0 \<le> fl x" using assms(1,4) by (rule monoD)
  moreover have "fl x \<le> fl 100" using assms(1,5) by (rule monoD)
  ultimately show ?thesis using assms(2,3) by simp
qed

lemma Math_round_interval:
  assumes "0 \<le> x" "x \<le> 100"
  shows "0 \<le> Math_round x \<and> Math_round x \<le> 100"
proof -
  have "0 \<le> \<lfloor>x + 1 / 2\<rfloor>" using assms(1) by simp
  moreover have "x + 1 / 2 < 101" using assms(2) by simp
  then have "\<lfloor>x + 1 / 2\<rfloor> < 101" by (simp add: floor_less_iff)
  ultimately show ?thesis by (simp add: Math_round_def)
qed


lemma computeStats_fields:
  "st_total (computeStats fl now items) = length items"
  "st_completed (computeStats fl now items) = length (filter (\<lambda>i. tc_status i = completed) items)"
  "st_inProgress (computeStats fl now items) = length (filter (\<lambda>i. tc_status i = in_progress) items)"
  "st_notStarted (computeStats fl now items) = length (filter (\<lambda>i. tc_status i = not_started) items)"
  "st_completionRate (computeStats fl now items) =
     (if 0 < length items
      then Math_round (fl (fl (real (length (filter (\<lambda>i. tc_status i = completed) items))
                                / real (length items)) * 100))
      else 0)"
  by (simp_all add: computeStats_def Let_def)

lemma completionRate_bounds:
  assumes "mono fl" "fl 0 = 0" "fl 1 = 1" "fl 100 = 100"
  shows "0 \<le> st_completionRate (computeStats fl now items)
       \<and> st_completionRate (computeStats fl now items) \<le> 100"
proof (cases "0 < length items")
  case False
  then show ?thesis by (simp add: computeStats_fields(5))
next
  case True
  let ?c = "length (filter (\<lambda>i. tc_status i = completed) items)"
  have "?c \<le> length items" by simp
  with True have "0 \<le> real ?c / real (length items)" "real ?c / real (length items) \<le> 1"
    by simp_all
  then have "0 \<le> fl (real ?c / real (length items)) \<and> fl (real ?c / real (length items)) \<le> 1"
    by (rule fl_unit_interval [OF assms(1,2,3)])
  then have "0 \<le> fl (real ?c / real (length items)) * 100"
    "fl (real ?c / real (length items)) * 100 \<le> 100"
    by simp_all
  then have "0 \<le> fl (fl (real ?c / real (length items)) * 100)
      \<and> fl (fl (real ?c / real (length items)) * 100) \<le> 100"
    by (rule fl_percent_interval [OF assms(1,2,4)])
  then have "0 \<le> Math_round (fl (fl (real ?c / real (length items)) * 100))
      \<and> Math_round (fl (fl (real ?c / real (length items)) * 100)) \<le> 100"
    using Math_round_interval by blast
  with True show ?thesis by (simp only: computeStats_fields(5) if_True)
qed

text \<open>
  Claim C1, as the code has it. For every list of tracking records the three counts and the
  number of skipped records add up to the total: the statistics have no bucket for
  \<^verbatim>\<open>skipped\<close>, so \<open>completed + inProgress + notStarted\<close> is the total less the skipped
  records. The completion rate lies between 0 and 100 and is 0 for the empty list. The
  bounds hold for every rounding \<open>fl\<close> of the double-precision operations that is monotone
  and exact at 0, 1 and 100, as rounding to nearest is.
\<close>

theorem computeStats_counts_and_rate:
  assumes "mono fl" and "fl 0 = 0" and "fl 1 = 1" and "fl 100 = 100"
  shows "st_completed (computeStats fl now items) + st_inProgress (computeStats fl now items)
           + st_notStarted (computeStats fl now items)
           + length (filter (\<lambda>i. tc_status i = skipped) items)
         = st_total (computeStats fl now items)
       \<and> st_total (computeStats fl now items) = length items
       \<and> 0 \<le> st_completionRate (computeStats fl now items)
       \<and> st_completionRate (computeStats fl now items) \<le> 100
       \<and> (st_total (computeStats fl now items) = 0
            \<longrightarrow> st_completionRate (computeStats fl now items) = 0)"
proof -
  have "st_completed (computeStats fl now items) + st_inProgress (computeStats fl now items)
           + st_notStarted (computeStats fl now items)
           + length (filter (\<lambda>i. tc_status i = skipped) items)
         = st_total (computeStats fl now items)"
    by (simp only: computeStats_fields status_partition_length)
  moreover have "st_total (computeStats fl now items) = 0
            \<longrightarrow> st_completionRate (computeStats fl now items) = 0"
    by (simp add: computeStats_fields)
  ultimately show ?thesis
    using completionRate_bounds [OF assms, of now items]
    by (simp only: computeStats_fields(1) simp_thms)
qed

lemma threeRecords_stats:
  "st_total (computeStats (\<lambda>x. x) 0 threeRecords) = 3"
  "st_completed (computeStats (\<lambda>x. x) 0 threeRecords) = 1"
  "st_inProgress (computeStats (\<lambda>x. x) 0 threeRecords) = 1"
  "st_notStarted (computeStats (\<lambda>x. x) 0 threeRecords) = 0"
  "st_completionRate (computeStats (\<lambda>x. x) 0 threeRecords) = 33"
  by (simp_all add: computeStats_fields threeRecords_def skippedRecord_def Math_round_def)

text \<open>
  The theorem at exact arithmetic on three records, one of them skipped, and on the empty
  list.
\<close>

theorem computeStats_counts_and_rate_witness:
  "mono (\<lambda>x::real. x) \<and>
   st_completed (computeStats (\<lambda>x. x) 0 threeRecords) = 1 \<and>
   st_inProgress (computeStats (\<lambda>x. x) 0 threeRecords) = 1 \<and>
   st_notStarted (computeStats (\<lambda>x. x) 0 threeRecords) = 0 \<and>
   st_total (computeStats (\<lambda>x. x) 0 threeRecords) = 3 \<and>
   0 \<le> st_completionRate (computeStats (\<lambda>x. x) 0 threeRecords) \<and>
   st_completionRate (computeStats (\<lambda>x. x) 0 threeRecords) \<le> 100 \<and>
   st_completionRate (computeStats (\<lambda>x. x) 0 []) = 0"
proof -
  have m: "mono (\<lambda>x::real. x)" by (simp add: mono_def)
  have e: "st_total (computeStats (\<lambda>x. x) 0 []) = 0" by (simp add: computeStats_fields)
  from computeStats_counts_and_rate [OF m, of 0 threeRecords]
  have "0 \<le> st_completionRate (computeStats (\<lambda>x. x) 0 threeRecords) \<and>
        st_completionRate (computeStats (\<lambda>x. x) 0 threeRecords) \<le> 100"
    by simp
  moreover from computeStats_counts_and_rate [OF m, of 0 "[]"] e
  have "st_completionRate (computeStats (\<lambda>x. x) 0 []) = 0"
    by simp
  ultimately show ?thesis
    using m by (simp only: threeRecords_stats simp_thms)
qed

text \<open>
  The identity of the claim without the skipped records fails on a single skipped record:
  the three counts are 0 and the total is 1.
\<close>

theorem computeStats_skipped_counterexample:
  "st_completed (computeStats (\<lambda>x. x) 0 [skippedRecord])
     + st_inProgress (computeStats (\<lambda>x. x) 0 [skippedRecord])
     + st_notStarted (computeStats (\<lambda>x. x) 0 [skippedRecord])
   \<noteq> st_total (computeStats (\<lambda>x. x) 0 [skippedRecord])"
  by (simp add: computeStats_fields skippedRecord_def)

section \<open>Status updates: partial update and frame\<close>

lemma applyUpdateData_frame:
  "applyUpdateData now st userId notes atts r =
     r\<lparr>tc_status := st,
       tc_updatedAt := Some now,
       tc_completedAt := (if st = completed then Some now else tc_completedAt r),
       tc_completedBy := (if st = completed then Some userId else tc_completedBy r),
       tc_notes := (case notes of None \<Rightarrow> tc_notes r | Some n \<Rightarrow> Some n),
       tc_attachments := (case atts of None \<Rightarrow> tc_attachments r | Some a \<Rightarrow> Some a)\<rparr>"
  by (simp add: applyUpdateData_def Let_def split: option.splits)

text \<open>
  Claim C9. A status update leaves the other tables and every row with another id as they
  were. In a row with the given id, notes and attachments take the new value when one is
  given and keep the old one when it is left out; status and \<^verbatim>\<open>updatedAt\<close> are written; the
  completion stamps are written when the new status is \<^verbatim>\<open>completed\<close> and kept otherwise;
  id, tenant, checklist, item, next due date, reminder flag and creation time are kept.
\<close>

theorem updateStatus_partial_update_frame:
  "\<exists>d'. updateComplianceStatus (Some d) now complianceId st userId notes atts = Inr d'
     \<and> d' = d\<lparr>tenantComplianceRows := tenantComplianceRows d'\<rparr>
     \<and> length (tenantComplianceRows d') = length (tenantComplianceRows d)
     \<and> (\<forall>i < length (tenantComplianceRows d).
          let r = tenantComplianceRows d ! i; r' = tenantComplianceRows d' ! i in
          (tc_id r \<noteq> complianceId \<longrightarrow> r' = r) \<and>
          (tc_id r = complianceId \<longrightarrow>
             tc_notes r' = (case notes of None \<Rightarrow> tc_notes r | Some n \<Rightarrow> Some n) \<and>
             tc_attachments r' = (case atts of None \<Rightarrow> tc_attachments r | Some a \<Rightarrow> Some a) \<and>
             tc_status r' = st \<and>
             tc_updatedAt r' = Some now \<and>
             tc_completedAt r' = (if st = completed then Some now else tc_completedAt r) \<and>
             tc_completedBy r' = (if st = completed then Some userId else tc_completedBy r) \<and>
             tc_id r' = tc_id r \<and> tc_tenantId r' = tc_tenantId r \<and>
             tc_checklistId r' = tc_checklistId r \<and> tc_itemId r' = tc_itemId r \<and>
             tc_nextDueDate r' = tc_nextDueDate r \<and>
             tc_reminderSent r' = tc_reminderSent r \<and>
             tc_createdAt r' = tc_createdAt r))"
  by (simp add: updateComplianceStatus_def applyUpdateData_frame Let_def)

lemma dbWithRecord_rows:
  "tenantComplianceRows dbWithRecord = [recordA1]"
  by (simp add: dbWithRecord_def emptyDb_def)

text \<open>
  The theorem on a database with one record that carries a note: an update to
  \<^verbatim>\<open>in_progress\<close> without notes or attachments keeps the note and the due date.
\<close>

theorem updateStatus_partial_update_frame_witness:
  "\<exists>d'. updateComplianceStatus (Some dbWithRecord) 5 ''r0'' in_progress ''U1'' None None = Inr d'
     \<and> tc_notes (tenantComplianceRows d' ! 0) = Some ''call the county clerk''
     \<and> tc_attachments (tenantComplianceRows d' ! 0) = None
     \<and> tc_status (tenantComplianceRows d' ! 0) = in_progress
     \<and> tc_completedAt (tenantComplianceRows d' ! 0) = None
     \<and> tc_nextDueDate (tenantComplianceRows d' ! 0) = Some 1738281600000"
proof -
  from updateStatus_partial_update_frame
    [of dbWithRecord 5 "''r0''" in_progress "''U1''" None None]
  obtain d' where
    d': "updateComplianceStatus (Some dbWithRecord) 5 ''r0'' in_progress ''U1'' None None = Inr d'"
    and rows: "\<forall>i < length (tenantComplianceRows dbWithRecord).
          let r = tenantComplianceRows dbWithRecord ! i; r' = tenantComplianceRows d' ! i in
          (tc_id r \<noteq> ''r0'' \<longrightarrow> r' = r) \<and>
          (tc_id r = ''r0'' \<longrightarrow>
             tc_notes r' = (case None of None \<Rightarrow> tc_notes r | Some n \<Rightarrow> Some n) \<and>
             tc_attachments r' = (case None of None \<Rightarrow> tc_attachments r | Some a \<Rightarrow> Some a) \<and>
             tc_status r' = in_progress \<and>
             tc_updatedAt r' = Some 5 \<and>
             tc_completedAt r' = (if in_progress = completed then Some 5 else tc_completedAt r) \<and>
             tc_completedBy r' = (if in_progress = completed then Some ''U1'' else tc_completedBy r) \<and>
             tc_id r' = tc_id r \<and> tc_tenantId r' = tc_tenantId r \<and>
             tc_checklistId r' = tc_checklistId r \<and> tc_itemId r' = tc_itemId r \<and>
             tc_nextDueDate r' = tc_nextDueDate r \<and>
             tc_reminderSent r' = tc_reminderSent r \<and>
             tc_createdAt r' = tc_createdAt r)"
    by blast
  from rows have
    "tc_notes (tenantComplianceRows d' ! 0) = Some ''call the county clerk''
     \<and> tc_attachments (tenantComplianceRows d' ! 0) = None
     \<and> tc_status (tenantComplianceRows d' ! 0) = in_progress
     \<and> tc_completedAt (tenantComplianceRows d' ! 0) = None
     \<and> tc_nextDueDate (tenantComplianceRows d' ! 0) = tc_nextDueDate recordA1"
    by (simp add: dbWithRecord_rows Let_def recordA1_def) 
  then show ?thesis using d' by (simp add: recordA1_def)
qed

section \<open>Histories: the completion stamps\<close>

lemma completion_inv_applyUpdateData:
  "completion_inv r \<Longrightarrow> completion_inv (applyUpdateData now st userId notes atts r)"
  by (simp add: completion_inv_def applyUpdateData_frame)

lemma completion_inv_rowOfItem:
  "completion_inv (rowOfItem parseDate now tenantId checklistId rid it)"
  by (simp add: completion_inv_def rowOfItem_def)

lemma serializeRecord_newTrackingRecord:
  "serializeRecord (newTrackingRecord parseDate now tenantId checklistId rid it) =
     (if dueDateUnparseable parseDate it then Inl InvalidTimeValue
      else Inr (rowOfItem parseDate now tenantId checklistId rid it))"
proof (cases "it_dueDate it")
  case None
  then show ?thesis
    by (simp add: serializeRecord_def newTrackingRecord_def nextDueDateOfItem_def
        serializeDate_def dueDateUnparseable_def rowOfItem_def)
next
  case (Some s)
  then show ?thesis
    by (cases "parseDate s")
       (simp_all add: serializeRecord_def newTrackingRecord_def nextDueDateOfItem_def
        newDateFromString_def serializeDate_def dueDateUnparseable_def rowOfItem_def)
qed

lemma serializeRecords_enumerate:
  "serializeRecords
     (map (\<lambda>(k, it). newTrackingRecord parseDate now tenantId checklistId (nanoid k) it)
        (enumerate n items)) =
     (if \<exists>it \<in> set items. dueDateUnparseable parseDate it then Inl InvalidTimeValue
      else Inr (map (\<lambda>(k, it). rowOfItem parseDate now tenantId checklistId (nanoid k) it)
                  (enumerate n items)))"
proof (induction items arbitrary: n)
  case Nil
  show ?case by simp
next
  case (Cons it items)
  show ?case
    by (simp add: serializeRecord_newTrackingRecord Cons.IH)
qed

lemma enumerate_eq_Nil: "enumerate n xs = [] \<longleftrightarrow> xs = []"
  by (cases xs) simp_all

lemma initialize_result:
  "initializeTenantCompliance parseDate nanoid (Some d) now tenantId checklistId =
     (case filter (\<lambda>c. cl_id c = checklistId) (complianceChecklists d) of
        [] \<Rightarrow> Inl ChecklistNotFound
      | c # _ \<Rightarrow>
          if \<exists>it \<in> set (itemsOfSections (cl_sections c)). dueDateUnparseable parseDate it
          then Inl InvalidTimeValue
          else Inr (d\<lparr>tenantComplianceRows := tenantComplianceRows d @
                 map (\<lambda>(k, it). rowOfItem parseDate now tenantId checklistId (nanoid k) it)
                   (enumerate 0 (itemsOfSections (cl_sections c)))\<rparr>))"
proof (cases "filter (\<lambda>c. cl_id c = checklistId) (complianceChecklists d)")
  case Nil
  then show ?thesis by (simp add: initializeTenantCompliance_def)
next
  case (Cons c cs)
  show ?thesis
  proof (cases "itemsOfSections (cl_sections c) = []")
    case True
    with Cons show ?thesis
      by (simp add: initializeTenantCompliance_def buildComplianceRecords_def Let_def)
  next
    case False
    with Cons show ?thesis
      by (simp add: initializeTenantCompliance_def buildComplianceRecords_def Let_def
          insertTenantCompliance_def serializeRecords_enumerate enumerate_eq_Nil)
  qed
qed

lemma completion_inv_stored:
  "r \<in> set (map (\<lambda>(k, it). rowOfItem parseDate now tenantId checklistId (nanoid k) it)
              (enumerate n items)) \<Longrightarrow> completion_inv r"
  by (auto simp: completion_inv_rowOfItem)

lemma completion_inv_step:
  assumes "\<forall>r \<in> set (tenantComplianceRows d). completion_inv r"
  shows "\<forall>r \<in> set (tenantComplianceRows (step parseDate d c)). completion_inv r"
proof (cases c)
  case (Initialize nanoid now tenantId checklistId)
  show ?thesis
  proof (cases "initializeTenantCompliance parseDate nanoid (Some d) now tenantId checklistId")
    case (Inl e)
    with Initialize assms show ?thesis by simp
  next
    case (Inr d')
    then obtain cl :: complianceChecklist where
      "d' = d\<lparr>tenantComplianceRows := tenantComplianceRows d @
          map (\<lambda>(k, it). rowOfItem parseDate now tenantId checklistId (nanoid k) it)
            (enumerate 0 (itemsOfSections (cl_sections cl)))\<rparr>"
      by (auto simp: initialize_result split: list.splits if_splits)
    with Initialize Inr assms show ?thesis
      by (auto simp: completion_inv_rowOfItem)
  qed
next
  case (UpdateStatus now complianceId st userId nts atts)
  with assms show ?thesis
    by (auto simp: updateComplianceStatus_def completion_inv_applyUpdateData)
qed

lemma completion_inv_run:
  "\<forall>r \<in> set (tenantComplianceRows d). completion_inv r \<Longrightarrow>
   \<forall>r \<in> set (tenantComplianceRows (run parseDate d ops)). completion_inv r"
  unfolding run_def
proof (induction ops arbitrary: d)
  case Nil
  then show ?case by simp
next
  case (Cons c ops)
  from Cons.prems have "\<forall>r \<in> set (tenantComplianceRows (step parseDate d c)). completion_inv r"
    by (rule completion_inv_step)
  from Cons.IH [OF this] show ?case by simp
qed

text \<open>
  Claim C2, as the code has it. In every state reached from an empty tracking table by
  initializations and status updates, a record whose status is \<^verbatim>\<open>completed\<close> has both
  \<^verbatim>\<open>completedAt\<close> and \<^verbatim>\<open>completedBy\<close> set, and the two stamps are set or unset together.
  The converse does not hold: an update away from \<^verbatim>\<open>completed\<close> keeps the stamps.
\<close>

theorem reachable_completed_implies_stamped:
  assumes "tenantComplianceRows d = []"
    and "r \<in> set (tenantComplianceRows (run parseDate d ops))"
  shows "(tc_status r = completed \<longrightarrow> tc_completedAt r \<noteq> None \<and> tc_completedBy r \<noteq> None)
       \<and> (tc_completedAt r = None \<longleftrightarrow> tc_completedBy r = None)"
proof -
  have "\<forall>r \<in> set (tenantComplianceRows d). completion_inv r"
    using assms(1) by simp
  then have "completion_inv r"
    using completion_inv_run assms(2) by blast
  then show ?thesis
    by (simp add: completion_inv_def)
qed

lemma items_checklist1:
  "itemsOfSections (cl_sections checklist1) = [itemA1, itemB1, itemC1]"
  by (simp add: itemsOfSections_def checklist1_def)

lemma parseable_checklist1:
  "\<not> dueDateUnparseable exampleParseDate itemA1"
  "\<not> dueDateUnparseable exampleParseDate itemB1"
  "\<not> dueDateUnparseable exampleParseDate itemC1"
  by (simp_all add: dueDateUnparseable_def itemA1_def itemB1_def itemC1_def exampleParseDate_def)

lemma rows_checklist1:
  "rowOfItem exampleParseDate 0 ''T1'' ''c1'' (exampleNanoid 0) itemA1
     = recordA1\<lparr>tc_notes := None\<rparr>"
  "rowOfItem exampleParseDate 0 ''T1'' ''c1'' (exampleNanoid (Suc 0)) itemB1
     = recordA1\<lparr>tc_id := ''r1'', tc_itemId := ''B1'', tc_notes := None, tc_nextDueDate := None\<rparr>"
  "rowOfItem exampleParseDate 0 ''T1'' ''c1'' (exampleNanoid (Suc (Suc 0))) itemC1
     = recordA1\<lparr>tc_id := ''r2'', tc_itemId := ''C1'', tc_notes := None, tc_nextDueDate := None\<rparr>"
  by (simp_all add: rowOfItem_def itemA1_def itemB1_def itemC1_def exampleParseDate_def
      exampleNanoid_def recordA1_def)

lemma initialize_dbWithChecklist:
  "initializeTenantCompliance exampleParseDate exampleNanoid (Some dbWithChecklist) 0 ''T1'' ''c1'' =
     Inr (dbWithChecklist\<lparr>tenantComplianceRows :=
       [recordA1\<lparr>tc_notes := None\<rparr>,
        recordA1\<lparr>tc_id := ''r1'', tc_itemId := ''B1'', tc_notes := None, tc_nextDueDate := None\<rparr>,
        recordA1\<lparr>tc_id := ''r2'', tc_itemId := ''C1'', tc_notes := None, tc_nextDueDate := None\<rparr>]\<rparr>)"
proof -
  have "filter (\<lambda>c. cl_id c = ''c1'') (complianceChecklists dbWithChecklist) = [checklist1]"
    by (simp add: dbWithChecklist_def emptyDb_def checklist1_def)
  moreover have "tenantComplianceRows dbWithChecklist = []"
    by (simp add: dbWithChecklist_def emptyDb_def)
  ultimately show ?thesis
    by (simp add: initialize_result items_checklist1 parseable_checklist1 rows_checklist1)
qed

lemma run_reopenHistory:
  "tenantComplianceRows (run exampleParseDate dbWithChecklist reopenHistory) =
       [recordA1\<lparr>tc_notes := None, tc_status := in_progress, tc_updatedAt := Some 20,
          tc_completedAt := Some 10, tc_completedBy := Some ''U1''\<rparr>,
        recordA1\<lparr>tc_id := ''r1'', tc_itemId := ''B1'', tc_notes := None, tc_nextDueDate := None\<rparr>,
        recordA1\<lparr>tc_id := ''r2'', tc_itemId := ''C1'', tc_notes := None, tc_nextDueDate := None\<rparr>]"
  by (simp add: run_def reopenHistory_def initialize_dbWithChecklist updateComplianceStatus_def
      applyUpdateData_frame recordA1_def)

text \<open>
  A record that is initialized, completed at time 10 by \<^verbatim>\<open>U1\<close> and reopened at time 20 is
  \<^verbatim>\<open>in_progress\<close> and still carries both stamps.
\<close>

theorem reopened_record_counterexample:
  "tc_status (tenantComplianceRows (run exampleParseDate dbWithChecklist reopenHistory) ! 0)
     = in_progress
   \<and> tc_completedAt (tenantComplianceRows (run exampleParseDate dbWithChecklist reopenHistory) ! 0)
     = Some 10
   \<and> tc_completedBy (tenantComplianceRows (run exampleParseDate dbWithChecklist reopenHistory) ! 0)
     = Some ''U1''"
  by (simp add: run_reopenHistory)

text \<open>The theorem on the same history cut before the reopening.\<close>

theorem reachable_completed_implies_stamped_witness:
  "tenantComplianceRows dbWithChecklist = []
   \<and> tenantComplianceRows (run exampleParseDate dbWithChecklist (butlast reopenHistory)) ! 0
       \<in> set (tenantComplianceRows (run exampleParseDate dbWithChecklist (butlast reopenHistory)))
   \<and> tc_status (tenantComplianceRows (run exampleParseDate dbWithChecklist (butlast reopenHistory)) ! 0)
       = completed
   \<and> tc_completedAt (tenantComplianceRows (run exampleParseDate dbWithChecklist (butlast reopenHistory)) ! 0)
       \<noteq> None
   \<and> tc_completedBy (tenantComplianceRows (run exampleParseDate dbWithChecklist (butlast reopenHistory)) ! 0)
       \<noteq> None"
proof -
  let ?rows = "tenantComplianceRows (run exampleParseDate dbWithChecklist (butlast reopenHistory))"
  have e: "tenantComplianceRows dbWithChecklist = []"
    by (simp add: dbWithChecklist_def emptyDb_def)
  have rows: "?rows =
       [recordA1\<lparr>tc_notes := None, tc_status := completed, tc_updatedAt := Some 10,
          tc_completedAt := Some 10, tc_completedBy := Some ''U1''\<rparr>,
        recordA1\<lparr>tc_id := ''r1'', tc_itemId := ''B1'', tc_notes := None, tc_nextDueDate := None\<rparr>,
        recordA1\<lparr>tc_id := ''r2'', tc_itemId := ''C1'', tc_notes := None, tc_nextDueDate := None\<rparr>]"
    by (simp add: run_def reopenHistory_def initialize_dbWithChecklist updateComplianceStatus_def
      applyUpdateData_frame recordA1_def)
  have m: "?rows ! 0 \<in> set ?rows" by (simp add: rows)
  have s: "tc_status (?rows ! 0) = completed" by (simp add: rows)
  from reachable_completed_implies_stamped [OF e m] s e m show ?thesis by simp
qed

section \<open>Tracking initialization: one record per item\<close>

lemma find_filter_conv:
  "find P xs = (case filter P xs of [] \<Rightarrow> None | x # _ \<Rightarrow> Some x)"
  by (induction xs) simp_all

lemma length_itemsOfSections:
  "length (itemsOfSections secs) = sum_list (map (\<lambda>s. length (sec_items s)) secs)"
  by (simp add: itemsOfSections_def length_concat comp_def)

lemma nth_stored_rows:
  "k < length items \<Longrightarrow>
   map (\<lambda>(k, it). rowOfItem parseDate now tenantId checklistId (nanoid k) it)
     (enumerate 0 items) ! k
     = rowOfItem parseDate now tenantId checklistId (nanoid k) (items ! k)"
  by (simp add: nth_enumerate_eq)

lemma find_None_filter: "find P xs = None \<Longrightarrow> filter P xs = []"
  by (simp add: find_filter_conv split: list.splits)

lemma find_Some_filter: "find P xs = Some x \<Longrightarrow> \<exists>ys. filter P xs = x # ys"
  by (simp add: find_filter_conv split: list.splits)

lemma dueDateUnparseable_iff:
  "dueDateUnparseable parseDate it \<longleftrightarrow>
     (\<exists>s. it_dueDate it = Some s \<and> s \<noteq> [] \<and> parseDate s = None)"
  by (cases "it_dueDate it") (simp_all add: dueDateUnparseable_def)

text \<open>
  Claim C3, as the code has it. With the database at hand, initialization fails with
  \<^verbatim>\<open>Checklist not found\<close> when no checklist row has the given id. When some item of the first
  such checklist has a non-empty \<^verbatim>\<open>dueDate\<close> that is not a date string, \<^verbatim>\<open>new Date\<close> gives
  an Invalid Date, the insert throws \<^verbatim>\<open>RangeError: Invalid time value\<close> while it serializes
  the values, and no record is created. Otherwise it appends to the tracking table exactly
  one record per item of that checklist, in the order of its sections and their items: as
  many records as the sections have items. The \<open>k\<close>-th record belongs to the \<open>k\<close>-th item, has
  status \<^verbatim>\<open>not_started\<close>, no stamps, notes or attachments, and as next due date the parsed
  \<^verbatim>\<open>dueDate\<close> of the item when that is a non-empty string, and \<^verbatim>\<open>null\<close> when it is absent or
  the empty string.
\<close>

theorem initializeTracking_one_record_per_item:
  "(find (\<lambda>c. cl_id c = checklistId) (complianceChecklists d) = None \<longrightarrow>
      initializeTenantCompliance parseDate nanoid (Some d) now tenantId checklistId
        = Inl ChecklistNotFound)
   \<and> (\<forall>c. find (\<lambda>c. cl_id c = checklistId) (complianceChecklists d) = Some c
           \<and> (\<exists>it \<in> set (itemsOfSections (cl_sections c)).
                 \<exists>s. it_dueDate it = Some s \<and> s \<noteq> [] \<and> parseDate s = None) \<longrightarrow>
        initializeTenantCompliance parseDate nanoid (Some d) now tenantId checklistId
          = Inl InvalidTimeValue)
   \<and> (\<forall>c. find (\<lambda>c. cl_id c = checklistId) (complianceChecklists d) = Some c
           \<and> (\<forall>it \<in> set (itemsOfSections (cl_sections c)).
                 \<forall>s. it_dueDate it = Some s \<and> s \<noteq> [] \<longrightarrow> parseDate s \<noteq> None) \<longrightarrow>
        (\<exists>new.
           initializeTenantCompliance parseDate nanoid (Some d) now tenantId checklistId
             = Inr (d\<lparr>tenantComplianceRows := tenantComplianceRows d @ new\<rparr>)
           \<and> length new = sum_list (map (\<lambda>s. length (sec_items s)) (cl_sections c))
           \<and> length new = length (itemsOfSections (cl_sections c))
           \<and> (\<forall>k < length new.
                tc_itemId (new ! k) = it_id (itemsOfSections (cl_sections c) ! k)
                \<and> tc_id (new ! k) = nanoid k
                \<and> tc_tenantId (new ! k) = tenantId
                \<and> tc_checklistId (new ! k) = checklistId
                \<and> tc_status (new ! k) = not_started
                \<and> tc_nextDueDate (new ! k) =
                    (case it_dueDate (itemsOfSections (cl_sections c) ! k) of
                       None \<Rightarrow> None
                     | Some s \<Rightarrow> if s = [] then None else parseDate s)
                \<and> tc_completedAt (new ! k) = None \<and> tc_completedBy (new ! k) = None
                \<and> tc_notes (new ! k) = None \<and> tc_attachments (new ! k) = None
                \<and> tc_reminderSent (new ! k) = False)))"
proof (intro conjI allI impI)
  assume "find (\<lambda>c. cl_id c = checklistId) (complianceChecklists d) = None"
  then have "filter (\<lambda>c. cl_id c = checklistId) (complianceChecklists d) = []"
    by (rule find_None_filter)
  then show "initializeTenantCompliance parseDate nanoid (Some d) now tenantId checklistId
        = Inl ChecklistNotFound"
    by (simp add: initialize_result)
next
  fix c
  assume a: "find (\<lambda>c. cl_id c = checklistId) (complianceChecklists d) = Some c
           \<and> (\<exists>it \<in> set (itemsOfSections (cl_sections c)).
                 \<exists>s. it_dueDate it = Some s \<and> s \<noteq> [] \<and> parseDate s = None)"
  then have u: "\<exists>it \<in> set (itemsOfSections (cl_sections c)). dueDateUnparseable parseDate it"
    by (simp only: dueDateUnparseable_iff)
  from a have "find (\<lambda>c. cl_id c = checklistId) (complianceChecklists d) = Some c"
    by (rule conjunct1)
  from find_Some_filter [OF this]
  obtain cs where f: "filter (\<lambda>c. cl_id c = checklistId) (complianceChecklists d) = c # cs" ..
  from u show "initializeTenantCompliance parseDate nanoid (Some d) now tenantId checklistId
          = Inl InvalidTimeValue"
    by (simp add: initialize_result f)
next
  fix c
  assume a: "find (\<lambda>c. cl_id c = checklistId) (complianceChecklists d) = Some c
           \<and> (\<forall>it \<in> set (itemsOfSections (cl_sections c)).
                 \<forall>s. it_dueDate it = Some s \<and> s \<noteq> [] \<longrightarrow> parseDate s \<noteq> None)"
  let ?items = "itemsOfSections (cl_sections c)"
  let ?new = "map (\<lambda>(k, it). rowOfItem parseDate now tenantId checklistId (nanoid k) it)
      (enumerate 0 ?items)"
  from a have ok: "\<not> (\<exists>it \<in> set ?items. dueDateUnparseable parseDate it)"
    unfolding dueDateUnparseable_iff by blast
  from a have "find (\<lambda>c. cl_id c = checklistId) (complianceChecklists d) = Some c"
    by (rule conjunct1)
  from find_Some_filter [OF this]
  obtain cs where f: "filter (\<lambda>c. cl_id c = checklistId) (complianceChecklists d) = c # cs" ..
  have r: "initializeTenantCompliance parseDate nanoid (Some d) now tenantId checklistId
             = Inr (d\<lparr>tenantComplianceRows := tenantComplianceRows d @ ?new\<rparr>)"
    using ok by (simp add: initialize_result f)
  have l: "length ?new = length ?items" by simp
  have "\<forall>k < length ?new.
                tc_itemId (?new ! k) = it_id (?items ! k)
                \<and> tc_id (?new ! k) = nanoid k
                \<and> tc_tenantId (?new ! k) = tenantId
                \<and> tc_checklistId (?new ! k) = checklistId
                \<and> tc_status (?new ! k) = not_started
                \<and> tc_nextDueDate (?new ! k) =
                    (case it_dueDate (?items ! k) of
                       None \<Rightarrow> None
                     | Some s \<Rightarrow> if s = [] then None else parseDate s)
                \<and> tc_completedAt (?new ! k) = None \<and> tc_completedBy (?new ! k) = None
                \<and> tc_notes (?new ! k) = None \<and> tc_attachments (?new ! k) = None
                \<and> tc_reminderSent (?new ! k) = False"
    by (simp add: nth_enumerate_eq rowOfItem_def)
  with r l show "\<exists>new.
           initializeTenantCompliance parseDate nanoid (Some d) now tenantId checklistId
             = Inr (d\<lparr>tenantComplianceRows := tenantComplianceRows d @ new\<rparr>)
           \<and> length new = sum_list (map (\<lambda>s. length (sec_items s)) (cl_sections c))
           \<and> length new = length (itemsOfSections (cl_sections c))
           \<and> (\<forall>k < length new.
                tc_itemId (new ! k) = it_id (itemsOfSections (cl_sections c) ! k)
                \<and> tc_id (new ! k) = nanoid k
                \<and> tc_tenantId (new ! k) = tenantId
                \<and> tc_checklistId (new ! k) = checklistId
                \<and> tc_status (new ! k) = not_started
                \<and> tc_nextDueDate (new ! k) =
                    (case it_dueDate (itemsOfSections (cl_sections c) ! k) of
                       None \<Rightarrow> None
                     | Some s \<Rightarrow> if s = [] then None else parseDate s)
                \<and> tc_completedAt (new ! k) = None \<and> tc_completedBy (new ! k) = None
                \<and> tc_notes (new ! k) = None \<and> tc_attachments (new ! k) = None
                \<and> tc_reminderSent (new ! k) = False)"
    using length_itemsOfSections [of "cl_sections c"]
    by (intro exI [of _ ?new]) simp
qed

lemma filter_dbEmptyDue:
  "filter (\<lambda>c. cl_id c = ''c1'') (complianceChecklists dbEmptyDue)
      = [checklist1\<lparr>cl_sections :=
          [\<lparr>sec_id = ''s1'', sec_title = ''Start'', sec_description = ''First steps'',
            sec_items = [itemEmptyDue]\<rparr>]\<rparr>]"
  "tenantComplianceRows dbEmptyDue = []"
  by (simp_all add: dbEmptyDue_def emptyDb_def checklist1_def)

lemma filter_dbUnparseableDue:
  "filter (\<lambda>c. cl_id c = ''c1'') (complianceChecklists dbUnparseableDue)
      = [checklist1\<lparr>cl_sections :=
          [\<lparr>sec_id = ''s1'', sec_title = ''Start'', sec_description = ''First steps'',
            sec_items = [itemB1, itemUnparseableDue]\<rparr>]\<rparr>]"
  by (simp add: dbUnparseableDue_def emptyDb_def checklist1_def)

lemma unparseable_soon: "dueDateUnparseable exampleParseDate itemUnparseableDue"
  by (simp add: dueDateUnparseable_def itemUnparseableDue_def itemA1_def exampleParseDate_def)

text \<open>
  Claim C3, the two ways in which the next due date is not ``the item's \<^verbatim>\<open>dueDate\<close> when
  present, else \<^verbatim>\<open>null\<close>''. An item whose \<^verbatim>\<open>dueDate\<close> is present and the empty string gets a
  record with \<^verbatim>\<open>nextDueDate = null\<close>, since the code tests truthiness. A checklist with an
  item whose \<^verbatim>\<open>dueDate\<close> is \<^verbatim>\<open>"soon"\<close> gets no record at all, also not for its other item:
  the call fails with the \<^verbatim>\<open>RangeError\<close>.
\<close>

theorem dueDate_empty_or_unparseable_counterexample:
  "it_dueDate itemEmptyDue = Some []
   \<and> initializeTenantCompliance exampleParseDate exampleNanoid (Some dbEmptyDue) 0 ''T1'' ''c1''
       = Inr (dbEmptyDue\<lparr>tenantComplianceRows :=
                [recordA1\<lparr>tc_notes := None, tc_nextDueDate := None\<rparr>]\<rparr>)
   \<and> it_dueDate itemUnparseableDue = Some ''soon''
   \<and> initializeTenantCompliance exampleParseDate exampleNanoid (Some dbUnparseableDue) 0 ''T1''
         ''c1''
       = Inl InvalidTimeValue"
proof -
  have e: "\<not> dueDateUnparseable exampleParseDate itemEmptyDue"
    by (simp add: dueDateUnparseable_def itemEmptyDue_def)
  have r: "rowOfItem exampleParseDate 0 ''T1'' ''c1'' (exampleNanoid 0) itemEmptyDue
      = recordA1\<lparr>tc_notes := None, tc_nextDueDate := None\<rparr>"
    by (simp add: rowOfItem_def itemEmptyDue_def itemA1_def exampleNanoid_def recordA1_def)
  have 1: "it_dueDate itemEmptyDue = Some []"
    by (simp add: itemEmptyDue_def)
  have 2: "initializeTenantCompliance exampleParseDate exampleNanoid (Some dbEmptyDue) 0 ''T1'' ''c1''
       = Inr (dbEmptyDue\<lparr>tenantComplianceRows :=
                [recordA1\<lparr>tc_notes := None, tc_nextDueDate := None\<rparr>]\<rparr>)"
    by (simp add: initialize_result filter_dbEmptyDue itemsOfSections_def e r)
  have 3: "it_dueDate itemUnparseableDue = Some ''soon''"
    by (simp add: itemUnparseableDue_def)
  have 4: "initializeTenantCompliance exampleParseDate exampleNanoid (Some dbUnparseableDue) 0
      ''T1'' ''c1'' = Inl InvalidTimeValue"
    by (simp add: initialize_result filter_dbUnparseableDue itemsOfSections_def unparseable_soon)
  show ?thesis
    apply (rule conjI, rule 1)
    apply (rule conjI, rule 2)
    apply (rule conjI, rule 3)
    apply (rule 4)
    done
qed

text \<open>
  Claim C3 at concrete inputs: an id that no checklist has, the checklist with the
  unparseable due date, and the example checklist with its three items in two sections.
\<close>

theorem initializeTracking_one_record_per_item_witness:
  "find (\<lambda>c. cl_id c = ''zz'') (complianceChecklists dbWithChecklist) = None
   \<and> initializeTenantCompliance exampleParseDate exampleNanoid (Some dbWithChecklist) 0 ''T1'' ''zz''
       = Inl ChecklistNotFound
   \<and> initializeTenantCompliance exampleParseDate exampleNanoid (Some dbUnparseableDue) 0 ''T1''
         ''c1''
       = Inl InvalidTimeValue
   \<and> find (\<lambda>c. cl_id c = ''c1'') (complianceChecklists dbWithChecklist) = Some checklist1
   \<and> (\<exists>new.
         initializeTenantCompliance exampleParseDate exampleNanoid (Some dbWithChecklist) 0 ''T1'' ''c1''
           = Inr (dbWithChecklist\<lparr>tenantComplianceRows :=
                    tenantComplianceRows dbWithChecklist @ new\<rparr>)
         \<and> length new = 3)"
proof -
  have f1: "find (\<lambda>c. cl_id c = ''c1'') (complianceChecklists dbWithChecklist) = Some checklist1"
    by (simp add: dbWithChecklist_def emptyDb_def checklist1_def)
  have f2: "find (\<lambda>c. cl_id c = ''zz'') (complianceChecklists dbWithChecklist) = None"
    by (simp add: dbWithChecklist_def emptyDb_def checklist1_def)
  have f3: "find (\<lambda>c. cl_id c = ''c1'') (complianceChecklists dbUnparseableDue)
      = Some (checklist1\<lparr>cl_sections :=
          [\<lparr>sec_id = ''s1'', sec_title = ''Start'', sec_description = ''First steps'',
            sec_items = [itemB1, itemUnparseableDue]\<rparr>]\<rparr>)"
    by (simp add: find_filter_conv filter_dbUnparseableDue)
  have s3: "sum_list (map (\<lambda>s. length (sec_items s)) (cl_sections checklist1)) = 3"
    by (simp add: checklist1_def)
  have ok: "\<forall>it \<in> set (itemsOfSections (cl_sections checklist1)).
      \<forall>s. it_dueDate it = Some s \<and> s \<noteq> [] \<longrightarrow> exampleParseDate s \<noteq> None"
    by (simp add: items_checklist1 itemA1_def itemB1_def itemC1_def exampleParseDate_def)
  have bad: "\<exists>it \<in> set (itemsOfSections (cl_sections (checklist1\<lparr>cl_sections :=
          [\<lparr>sec_id = ''s1'', sec_title = ''Start'', sec_description = ''First steps'',
            sec_items = [itemB1, itemUnparseableDue]\<rparr>]\<rparr>))).
      \<exists>s. it_dueDate it = Some s \<and> s \<noteq> [] \<and> exampleParseDate s = None"
    by (simp add: itemsOfSections_def itemUnparseableDue_def itemA1_def exampleParseDate_def)
  note t1 = initializeTracking_one_record_per_item
    [of "''c1''" dbWithChecklist exampleParseDate exampleNanoid 0 "''T1''"]
  note t2 = initializeTracking_one_record_per_item
    [of "''zz''" dbWithChecklist exampleParseDate exampleNanoid 0 "''T1''"]
  note t3 = initializeTracking_one_record_per_item
    [of "''c1''" dbUnparseableDue exampleParseDate exampleNanoid 0 "''T1''"]
  from t2 f2 have nf:
    "initializeTenantCompliance exampleParseDate exampleNanoid (Some dbWithChecklist) 0 ''T1'' ''zz''
       = Inl ChecklistNotFound"
    by (elim conjE) (erule mp)
  from t3 have "find (\<lambda>c. cl_id c = ''c1'') (complianceChecklists dbUnparseableDue)
      = Some (checklist1\<lparr>cl_sections :=
          [\<lparr>sec_id = ''s1'', sec_title = ''Start'', sec_description = ''First steps'',
            sec_items = [itemB1, itemUnparseableDue]\<rparr>]\<rparr>)
      \<and> (\<exists>it \<in> set (itemsOfSections (cl_sections (checklist1\<lparr>cl_sections :=
          [\<lparr>sec_id = ''s1'', sec_title = ''Start'', sec_description = ''First steps'',
            sec_items = [itemB1, itemUnparseableDue]\<rparr>]\<rparr>))).
      \<exists>s. it_dueDate it = Some s \<and> s \<noteq> [] \<and> exampleParseDate s = None)
      \<longrightarrow> initializeTenantCompliance exampleParseDate exampleNanoid (Some dbUnparseableDue) 0
        ''T1'' ''c1'' = Inl InvalidTimeValue"
    by (elim conjE) (erule allE)
  with f3 bad have inv:
    "initializeTenantCompliance exampleParseDate exampleNanoid (Some dbUnparseableDue) 0
        ''T1'' ''c1'' = Inl InvalidTimeValue"
    by (elim impE) (rule conjI)
  from t1 have "find (\<lambda>c. cl_id c = ''c1'') (complianceChecklists dbWithChecklist) = Some checklist1
      \<and> (\<forall>it \<in> set (itemsOfSections (cl_sections checklist1)).
            \<forall>s. it_dueDate it = Some s \<and> s \<noteq> [] \<longrightarrow> exampleParseDate s \<noteq> None)
      \<longrightarrow> (\<exists>new.
         initializeTenantCompliance exampleParseDate exampleNanoid (Some dbWithChecklist) 0 ''T1'' ''c1''
           = Inr (dbWithChecklist\<lparr>tenantComplianceRows :=
                    tenantComplianceRows dbWithChecklist @ new\<rparr>)
         \<and> length new = sum_list (map (\<lambda>s. length (sec_items s)) (cl_sections checklist1)))"
    by blast
  with f1 ok have "\<exists>new.
         initializeTenantCompliance exampleParseDate exampleNanoid (Some dbWithChecklist) 0 ''T1'' ''c1''
           = Inr (dbWithChecklist\<lparr>tenantComplianceRows :=
                    tenantComplianceRows dbWithChecklist @ new\<rparr>)
         \<and> length new = sum_list (map (\<lambda>s. length (sec_items s)) (cl_sections checklist1))"
    by (elim impE) (rule conjI)
  then have ex: "\<exists>new.
         initializeTenantCompliance exampleParseDate exampleNanoid (Some dbWithChecklist) 0 ''T1'' ''c1''
           = Inr (dbWithChecklist\<lparr>tenantComplianceRows :=
                    tenantComplianceRows dbWithChecklist @ new\<rparr>)
         \<and> length new = 3"
    unfolding s3 .
  show ?thesis
    apply (rule conjI, rule f2)
    apply (rule conjI, rule nf)
    apply (rule conjI, rule inv)
    apply (rule conjI, rule f1)
    apply (rule ex)
    done
qed



section \<open>Checklist templates: insertion without validation\<close>

text \<open>
  Claim C7, as the code has it. With the database at hand, \<^verbatim>\<open>upsertComplianceChecklist\<close>
  never fails, whatever the item ids of the definition are: it returns the fresh id and
  appends one row with that id and the sections, title and version of the definition; the
  rows already there and the other tables stay as they are. Nothing in it compares item
  ids. Its one failure is the missing database.
\<close>

theorem upsertTemplate_always_inserts:
  "\<exists>d'. upsertComplianceChecklist (Some d) now checklistId data = Inr (checklistId, d')
     \<and> d' = d\<lparr>complianceChecklists := complianceChecklists d'\<rparr>
     \<and> length (complianceChecklists d') = Suc (length (complianceChecklists d))
     \<and> butlast (complianceChecklists d') = complianceChecklists d
     \<and> cl_id (last (complianceChecklists d')) = checklistId
     \<and> cl_sections (last (complianceChecklists d')) = cd_sections data
     \<and> cl_title (last (complianceChecklists d')) = cd_title data
     \<and> cl_version (last (complianceChecklists d')) = cd_version data
     \<and> upsertComplianceChecklist None now checklistId data = Inl DatabaseNotAvailable"
  by (simp add: upsertComplianceChecklist_def)

text \<open>
  A definition whose two items share the id \<^verbatim>\<open>A1\<close> is inserted like any other; no
  validation error is raised.
\<close>

theorem duplicate_item_ids_counterexample:
  "\<not> distinct (map it_id (itemsOfSections (cd_sections duplicateIdData)))
   \<and> upsertComplianceChecklist (Some emptyDb) 7 ''c9'' duplicateIdData
       = Inr (''c9'',
           emptyDb\<lparr>complianceChecklists :=
             [\<lparr>cl_id = ''c9'', cl_title = ''Startup checklist'', cl_version = ''1.0'',
               cl_region = None, cl_businessType = None,
               cl_sections = cd_sections duplicateIdData,
               cl_metadata = None, cl_isActive = True,
               cl_createdAt = Some 7, cl_updatedAt = Some 7\<rparr>]\<rparr>)"
  by (simp add: upsertComplianceChecklist_def duplicateIdData_def emptyDb_def
      itemsOfSections_def itemA1_def)

section \<open>Reminders: marking as sent\<close>

lemma markReminderSent_rows:
  "markReminderSent (Some d) now reminderId =
     Inr (d\<lparr>complianceReminders :=
            map (\<lambda>r. if rem_id r = reminderId
                     then r\<lparr>rem_sent := True, rem_sentAt := Some now\<rparr> else r)
              (complianceReminders d)\<rparr>)"
  by (simp add: markReminderSent_def)

text \<open>
  Claim C8, as the code has it. \<^verbatim>\<open>markReminderSent\<close> sets \<^verbatim>\<open>sent\<close> to true and \<^verbatim>\<open>sentAt\<close> to
  the time of the call on every reminder with the given id, and changes nothing else. The
  write is unconditional: a second call at time \<open>now'\<close> gives the state that a single call
  at \<open>now'\<close> gives, so it moves \<^verbatim>\<open>sentAt\<close> to \<open>now'\<close>; it leaves the state unchanged when
  \<open>now'\<close> is the time of the first call.
\<close>

theorem markSent_stamps_and_overwrites:
  "\<exists>d1 d2.
     markReminderSent (Some d) now reminderId = Inr d1
     \<and> d1 = d\<lparr>complianceReminders := complianceReminders d1\<rparr>
     \<and> length (complianceReminders d1) = length (complianceReminders d)
     \<and> (\<forall>i < length (complianceReminders d).
          let r = complianceReminders d ! i; r' = complianceReminders d1 ! i in
          (rem_id r \<noteq> reminderId \<longrightarrow> r' = r) \<and>
          (rem_id r = reminderId \<longrightarrow> r' = r\<lparr>rem_sent := True, rem_sentAt := Some now\<rparr>))
     \<and> markReminderSent (Some d1) now' reminderId = Inr d2
     \<and> markReminderSent (Some d) now' reminderId = Inr d2
     \<and> (now' = now \<longrightarrow> d2 = d1)"
  by (simp add: markReminderSent_rows comp_def if_distrib cong: if_cong)

lemma markReminderSent_dbWithReminder:
  "markReminderSent (Some dbWithReminder) t ''m1''
     = Inr (dbWithReminder\<lparr>complianceReminders :=
              [reminder1\<lparr>rem_sent := True, rem_sentAt := Some t\<rparr>]\<rparr>)"
  by (simp add: markReminderSent_rows dbWithReminder_def emptyDb_def reminder1_def)

lemma markReminderSent_again:
  "markReminderSent
     (Some (dbWithReminder\<lparr>complianceReminders :=
              [reminder1\<lparr>rem_sent := True, rem_sentAt := Some t\<rparr>]\<rparr>)) t' ''m1''
     = Inr (dbWithReminder\<lparr>complianceReminders :=
              [reminder1\<lparr>rem_sent := True, rem_sentAt := Some t'\<rparr>]\<rparr>)"
  by (simp add: markReminderSent_rows dbWithReminder_def emptyDb_def reminder1_def)

text \<open>
  A reminder marked at time 100 and again at time 200 ends with \<^verbatim>\<open>sentAt\<close> 200: the second
  call is not a no-op.
\<close>

theorem markSent_twice_counterexample:
  "markReminderSent (Some dbWithReminder) 100 ''m1''
     = Inr (dbWithReminder\<lparr>complianceReminders :=
              [reminder1\<lparr>rem_sent := True, rem_sentAt := Some 100\<rparr>]\<rparr>)
   \<and> markReminderSent
       (Some (dbWithReminder\<lparr>complianceReminders :=
                [reminder1\<lparr>rem_sent := True, rem_sentAt := Some 100\<rparr>]\<rparr>)) 200 ''m1''
     = Inr (dbWithReminder\<lparr>complianceReminders :=
              [reminder1\<lparr>rem_sent := True, rem_sentAt := Some 200\<rparr>]\<rparr>)
   \<and> rem_sentAt (reminder1\<lparr>rem_sent := True, rem_sentAt := Some 200\<rparr>)
       \<noteq> rem_sentAt (reminder1\<lparr>rem_sent := True, rem_sentAt := Some 100\<rparr>)"
  by (simp add: markReminderSent_dbWithReminder markReminderSent_again)

text \<open>The theorem on one reminder, marked twice at the same instant.\<close>

theorem markSent_stamps_and_overwrites_witness:
  "\<exists>d1. markReminderSent (Some dbWithReminder) 100 ''m1'' = Inr d1
     \<and> rem_id (complianceReminders dbWithReminder ! 0) = ''m1''
     \<and> rem_sent (complianceReminders d1 ! 0) = True
     \<and> rem_sentAt (complianceReminders d1 ! 0) = Some 100
     \<and> markReminderSent (Some d1) 100 ''m1'' = Inr d1"
proof -
  from markSent_stamps_and_overwrites [of dbWithReminder 100 "''m1''" 100]
  obtain d1 d2 where
    a: "markReminderSent (Some dbWithReminder) 100 ''m1'' = Inr d1"
    and rows: "\<forall>i < length (complianceReminders dbWithReminder).
          let r = complianceReminders dbWithReminder ! i; r' = complianceReminders d1 ! i in
          (rem_id r \<noteq> ''m1'' \<longrightarrow> r' = r) \<and>
          (rem_id r = ''m1'' \<longrightarrow> r' = r\<lparr>rem_sent := True, rem_sentAt := Some 100\<rparr>)"
    and b: "markReminderSent (Some d1) 100 ''m1'' = Inr d2"
    and c: "(100::int) = 100 \<longrightarrow> d2 = d1"
    by blast
  have r0: "complianceReminders dbWithReminder = [reminder1]"
    by (simp add: dbWithReminder_def emptyDb_def)
  have i: "rem_id (complianceReminders dbWithReminder ! 0) = ''m1''"
    by (simp add: r0 reminder1_def)
  from rows have "complianceReminders d1 ! 0 = reminder1\<lparr>rem_sent := True, rem_sentAt := Some 100\<rparr>"
    by (simp add: r0 Let_def reminder1_def)
  then have s: "rem_sent (complianceReminders d1 ! 0) = True
      \<and> rem_sentAt (complianceReminders d1 ! 0) = Some 100"
    by simp
  from b c have "markReminderSent (Some d1) 100 ''m1'' = Inr d1" by simp
  with a i s show ?thesis by blast
qed

section \<open>Status updates through the router: no tenant check on the record\<close>

text \<open>
  Claim C6. The procedure \<^verbatim>\<open>updateStatus\<close> uses the tenant id of its input for the
  authorization check only. For a user linked to the tenants \<open>t1\<close> and \<open>t2\<close>, two calls that
  differ in nothing but the tenant id have the same result and leave the same database;
  the rows rewritten are those whose id is the record id of the input, and the tenant a
  row belongs to is neither compared nor changed.
\<close>

theorem updateStatus_selects_by_record_id:
  assumes "getTenantForUser (Some d) userId t1 = Inr (Some a1)"
    and "getTenantForUser (Some d) userId t2 = Inr (Some a2)"
  shows "router_updateStatus (Some d) now userId (input\<lparr>in_tenantId := t1\<rparr>)
           = router_updateStatus (Some d) now userId (input\<lparr>in_tenantId := t2\<rparr>)
       \<and> (\<exists>d'. router_updateStatus (Some d) now userId (input\<lparr>in_tenantId := t1\<rparr>)
                  = Inr (True, d')
              \<and> tenantComplianceRows d' =
                  map (\<lambda>r. if tc_id r = in_complianceId input
                           then applyUpdateData now (in_status input) userId (in_notes input)
                                  (in_attachments input) r
                           else r)
                    (tenantComplianceRows d)
              \<and> (\<forall>i < length (tenantComplianceRows d).
                    tc_id (tenantComplianceRows d ! i) = in_complianceId input \<longrightarrow>
                    tc_status (tenantComplianceRows d' ! i) = in_status input
                    \<and> tc_tenantId (tenantComplianceRows d' ! i)
                        = tc_tenantId (tenantComplianceRows d ! i)))"
  using assms
  by (simp add: router_updateStatus_def updateComplianceStatus_def applyUpdateData_frame)


lemma getTenantForUser_U1:
  "getTenantForUser (Some dbTenants) ''U1'' ''T1''
     = Inr (Some \<lparr>twm_tenant = tenantT1, twm_modules = [], twm_userRole = owner\<rparr>)"
  "getTenantForUser (Some dbTenants) ''U1'' ''T3''
     = Inr (Some \<lparr>twm_tenant = tenantT3, twm_modules = [], twm_userRole = member\<rparr>)"
  "getTenantForUser (Some dbTenants) ''U1'' ''T2'' = Inr None"
  by (simp_all add: getTenantForUser_def dbTenants_def emptyDb_def tenantT1_def tenantT2_def
      tenantT3_def)

text \<open>
  The theorem on a database where the user \<^verbatim>\<open>U1\<close> is linked to the tenants \<^verbatim>\<open>T1\<close> and \<^verbatim>\<open>T3\<close>
  but not to \<^verbatim>\<open>T2\<close>, which owns the record \<^verbatim>\<open>r0\<close>: the call authorized against \<^verbatim>\<open>T1\<close> sets
  the record of \<^verbatim>\<open>T2\<close> to \<^verbatim>\<open>skipped\<close>, as the call authorized against \<^verbatim>\<open>T3\<close> does.
\<close>

theorem updateStatus_selects_by_record_id_witness:
  "getTenantForUser (Some dbTenants) ''U1'' ''T2'' = Inr None
   \<and> tc_id (tenantComplianceRows dbTenants ! 0) = ''r0''
   \<and> tc_tenantId (tenantComplianceRows dbTenants ! 0) = ''T2''
   \<and> router_updateStatus (Some dbTenants) 9 ''U1'' (crossTenantInput\<lparr>in_tenantId := ''T1''\<rparr>)
       = router_updateStatus (Some dbTenants) 9 ''U1'' (crossTenantInput\<lparr>in_tenantId := ''T3''\<rparr>)
   \<and> (\<exists>d'. router_updateStatus (Some dbTenants) 9 ''U1'' (crossTenantInput\<lparr>in_tenantId := ''T1''\<rparr>)
              = Inr (True, d')
          \<and> tc_status (tenantComplianceRows d' ! 0) = skipped
          \<and> tc_tenantId (tenantComplianceRows d' ! 0) = ''T2'')"
proof -
  have rows: "tenantComplianceRows dbTenants = [recordA1\<lparr>tc_tenantId := ''T2''\<rparr>]"
    by (simp add: dbTenants_def emptyDb_def)
  have r: "tc_id (tenantComplianceRows dbTenants ! 0) = ''r0''"
    "tc_tenantId (tenantComplianceRows dbTenants ! 0) = ''T2''"
    by (simp_all add: rows recordA1_def)
  have inp: "in_complianceId crossTenantInput = ''r0''" "in_status crossTenantInput = skipped"
    by (simp_all add: crossTenantInput_def)
  note t = updateStatus_selects_by_record_id
    [OF getTenantForUser_U1(1) getTenantForUser_U1(2), of 9 crossTenantInput]
  from t have same:
    "router_updateStatus (Some dbTenants) 9 ''U1'' (crossTenantInput\<lparr>in_tenantId := ''T1''\<rparr>)
       = router_updateStatus (Some dbTenants) 9 ''U1'' (crossTenantInput\<lparr>in_tenantId := ''T3''\<rparr>)"
    by (rule conjunct1)
  from t obtain d' where
    d': "router_updateStatus (Some dbTenants) 9 ''U1'' (crossTenantInput\<lparr>in_tenantId := ''T1''\<rparr>)
              = Inr (True, d')"
    and upd: "\<forall>i < length (tenantComplianceRows dbTenants).
                    tc_id (tenantComplianceRows dbTenants ! i) = in_complianceId crossTenantInput \<longrightarrow>
                    tc_status (tenantComplianceRows d' ! i) = in_status crossTenantInput
                    \<and> tc_tenantId (tenantComplianceRows d' ! i)
                        = tc_tenantId (tenantComplianceRows dbTenants ! i)"
    by blast
  from upd r have "tc_status (tenantComplianceRows d' ! 0) = skipped
          \<and> tc_tenantId (tenantComplianceRows d' ! 0) = ''T2''"
    by (simp add: rows inp)
  with d' have ex: "\<exists>d'. router_updateStatus (Some dbTenants) 9 ''U1'' (crossTenantInput\<lparr>in_tenantId := ''T1''\<rparr>)
              = Inr (True, d')
          \<and> tc_status (tenantComplianceRows d' ! 0) = skipped
          \<and> tc_tenantId (tenantComplianceRows d' ! 0) = ''T2''"
    by blast
  show ?thesis
    apply (intro conjI)
        apply (rule getTenantForUser_U1(3))
       apply (rule r(1))
      apply (rule r(2))
     apply (rule same)
    apply (rule ex)
    done
qed

section \<open>Dates: moving by days, months and years\<close>

lemma MonthFromTime_range: "0 \<le> MonthFromTime t \<and> MonthFromTime t \<le> 11"
  by (simp add: MonthFromTime_def Let_def)

lemma MakeDay_of_fields:
  "MakeDay (YearFromTime t) (MonthFromTime t) (DateFromTime t + n) = Day t + n"
proof -
  have l: "(if DaysInYear (YearFromTime t) = 366 then 1 else 0) = InLeapYear t"
    by (simp add: InLeapYear_def)
  have m: "MonthFromTime t div 12 = 0" "MonthFromTime t mod 12 = MonthFromTime t"
    using MonthFromTime_range [of t] by simp_all
  have "DayOfMonthStart (YearFromTime t) (MonthFromTime t) + DateFromTime t - 1 = Day t"
    unfolding DayOfMonthStart_def l Let_def DateFromTime_def
    by (simp add: MonthFromTime_def DayWithinYear_def Let_def)
  then show ?thesis
    by (simp add: MakeDay_def Let_def m)
qed

lemma MakeDate_shift:
  "MakeDate (Day t + n) (TimeWithinDay t) = t + n * msPerDay"
  by (simp add: MakeDate_def Day_def TimeWithinDay_def algebra_simps)

lemma setDate_shift:
  "setDate tza this (getDate tza this + n) = UTC tza (LocalTime tza this + n * msPerDay)"
  by (simp add: setDate_def getDate_def Let_def MakeDay_of_fields MakeDate_shift)

lemma MakeDay_add_12_months: "MakeDay y (m + 12) d = MakeDay (y + 1) m d"
proof -
  have "(m + 12) div 12 = m div 12 + 1" "(m + 12) mod 12 = m mod 12"
    by simp_all
  moreover have "y + (m div 12 + 1) = y + 1 + m div 12"
    by simp
  ultimately show ?thesis
    by (simp only: MakeDay_def Let_def)
qed

lemma setFullYear_next_year:
  "setFullYear tza d (getFullYear tza d + 1) = setMonth tza d (getMonth tza d + 12)"
  by (simp add: setFullYear_def setMonth_def getFullYear_def getMonth_def Let_def
      MakeDay_add_12_months)

text \<open>
  The year of a day is what the language specification asks for: the one year whose first
  day is not after the day and whose successor's first day is. The first days of the years
  are strictly increasing, so a day, a month and a date of month are recovered from the
  day number that \<open>MakeDay\<close> builds from them.
\<close>

lemma int_div_bounds:
  fixes a n :: int
  assumes "0 < n"
  shows "n * (a div n) \<le> a" and "a < n * (a div n) + n"
proof -
  have e: "a = n * (a div n) + a mod n" by simp
  have "0 \<le> a mod n" "a mod n < n" using assms by simp_all
  with e show "n * (a div n) \<le> a" and "a < n * (a div n) + n"
    by linarith+
qed

lemma estimate_arith:
  fixes y A B C :: int
  assumes "4 * A \<le> y - 1969" "y - 1969 < 4 * A + 4"
    and "100 * B \<le> y - 1901" "y - 1901 < 100 * B + 100"
    and "400 * C \<le> y - 1601" "y - 1601 < 400 * C + 400"
  shows "146097 * (y - 1970) - 506 \<le> 400 * (365 * (y - 1970) + A - B + C)"
    and "400 * (365 * (y - 1970) + A - B + C) \<le> 146097 * (y - 1970) + 589"
proof -
  have e: "400 * (365 * (y - 1970) + A - B + C)
      = 146000 * y - 287620000 + 400 * A - 400 * B + 400 * C"
    by (simp add: algebra_simps)
  have l: "146097 * (y - 1970) - 506 = 146097 * y - 287811596"
    and u: "146097 * (y - 1970) + 589 = 146097 * y - 287810501"
    by (simp_all add: algebra_simps)
  have 1: "100 * y - 197200 \<le> 400 * A" using assms(2) by linarith
  have 2: "400 * B \<le> 4 * y - 7604" using assms(3) by linarith
  have 3: "y - 2000 \<le> 400 * C" using assms(6) by linarith
  show "146097 * (y - 1970) - 506 \<le> 400 * (365 * (y - 1970) + A - B + C)"
    unfolding e l using 1 2 3 by linarith
  have 4: "400 * A \<le> 100 * y - 196900" using assms(1) by linarith
  have 5: "4 * y - 8000 \<le> 400 * B" using assms(4) by linarith
  have 6: "400 * C \<le> y - 1601" using assms(5) by linarith
  show "400 * (365 * (y - 1970) + A - B + C) \<le> 146097 * (y - 1970) + 589"
    unfolding e u using 4 5 6 by linarith
qed

lemma DayFromYear_estimate:
  "146097 * (y - 1970) - 506 \<le> 400 * DayFromYear y"
  "400 * DayFromYear y \<le> 146097 * (y - 1970) + 589"
proof -
  have p: "(0::int) < 4" "(0::int) < 100" "(0::int) < 400" by simp_all
  note a = int_div_bounds [OF p(1), of "y - 1969"]
  note b = int_div_bounds [OF p(2), of "y - 1901"]
  note c = int_div_bounds [OF p(3), of "y - 1601"]
  show "146097 * (y - 1970) - 506 \<le> 400 * DayFromYear y"
    unfolding DayFromYear_def by (rule estimate_arith(1) [OF a b c])
  show "400 * DayFromYear y \<le> 146097 * (y - 1970) + 589"
    unfolding DayFromYear_def by (rule estimate_arith(2) [OF a b c])
qed

lemma year_arith:
  fixes d q F G :: int
  assumes "146097 * q \<le> d * 400" "d * 400 < 146097 * q + 146097"
    and "400 * F \<le> 146097 * (1970 + q - 1 - 1970) + 589"
    and "146097 * (1970 + q + 2 - 1970) - 506 \<le> 400 * G"
  shows "F \<le> d" and "d < G"
proof -
  have "400 * F \<le> 146097 * q - 145508" using assms(3) by (simp add: algebra_simps)
  then have "400 * F \<le> 400 * d" using assms(1) by linarith
  then show "F \<le> d" by simp
  have "146097 * q + 291688 \<le> 400 * G" using assms(4) by (simp add: algebra_simps)
  then have "400 * d < 400 * G" using assms(2) by linarith
  then show "d < G" by simp
qed

lemma YearFromDay_lower: "DayFromYear (YearFromDay d) \<le> d"
  and YearFromDay_upper: "d < DayFromYear (YearFromDay d + 1)"
proof -
  define e where "e = 1970 + (d * 400) div 146097"
  have p: "(0::int) < 146097" by simp
  note q = int_div_bounds [OF p, of "d * 400"]
  note r = year_arith [OF q DayFromYear_estimate(2) [of "1970 + (d * 400) div 146097 - 1"]
      DayFromYear_estimate(1) [of "1970 + (d * 400) div 146097 + 2"]]
  have r1: "DayFromYear (e - 1) \<le> d" and r2: "d < DayFromYear (e + 2)"
    using r unfolding e_def by blast+
  have y: "YearFromDay d =
      (if d < DayFromYear e then e - 1 else if DayFromYear (e + 1) \<le> d then e + 1 else e)"
    by (simp add: YearFromDay_def e_def Let_def)
  show "DayFromYear (YearFromDay d) \<le> d"
    unfolding y using r1 by simp
  have "e - 1 + 1 = e" "e + 1 + 1 = e + 2" by simp_all
  then show "d < DayFromYear (YearFromDay d + 1)"
    unfolding y using r2 by (simp add: add.commute)
qed


lemma div_add_one:
  fixes a n :: int
  assumes "0 < n"
  shows "(a + 1) div n = a div n + (if n dvd a + 1 then 1 else 0)"
proof (cases "a mod n = n - 1")
  case True
  have "a + 1 = n * (a div n) + (a mod n + 1)" by simp
  also have "a mod n + 1 = n" using True by simp
  finally have "a + 1 = n * (a div n) + n" .
  then have e: "a + 1 = n * (a div n + 1) + 0"
    by (simp add: distrib_left)
  have "(a + 1) div n = a div n + 1"
    by (rule int_div_pos_eq [OF e]) (use assms in simp_all)
  moreover from e have "n dvd a + 1" by simp
  ultimately show ?thesis by simp
next
  case False
  have r: "0 \<le> a mod n" "a mod n < n" using assms by simp_all
  with False have r': "a mod n + 1 < n" by simp
  have e: "a + 1 = n * (a div n) + (a mod n + 1)" by simp
  have d: "(a + 1) div n = a div n"
    by (rule int_div_pos_eq [OF e]) (use r r' in simp_all)
  have "(a + 1) mod n = a mod n + 1"
    by (rule int_mod_pos_eq [OF e]) (use r r' in simp_all)
  with r have "(a + 1) mod n \<noteq> 0" by simp
  then have "\<not> n dvd a + 1" by (simp add: dvd_eq_mod_eq_0)
  with d show ?thesis by simp
qed

lemma dvd_shifted:
  "(4::int) dvd y - 1969 + 1 \<longleftrightarrow> 4 dvd y"
  "(100::int) dvd y - 1901 + 1 \<longleftrightarrow> 100 dvd y"
  "(400::int) dvd y - 1601 + 1 \<longleftrightarrow> 400 dvd y"
proof -
  have "y - 1969 + 1 = y - 4 * 492" "y - 1901 + 1 = y - 100 * 19" "y - 1601 + 1 = y - 400 * 4"
    by simp_all
  then show "(4::int) dvd y - 1969 + 1 \<longleftrightarrow> 4 dvd y"
    "(100::int) dvd y - 1901 + 1 \<longleftrightarrow> 100 dvd y"
    "(400::int) dvd y - 1601 + 1 \<longleftrightarrow> 400 dvd y"
    by (simp_all only: dvd_diff_left_iff dvd_triv_left)
qed

lemma DaysInYear_dvd:
  "DaysInYear y =
     365 + (if 4 dvd y then 1 else 0) - (if 100 dvd y then 1 else 0) + (if 400 dvd y then 1 else 0)"
proof -
  have a: "100 dvd y \<Longrightarrow> 4 dvd y"
    by (rule dvd_trans [of 4 100]) simp_all
  have b: "400 dvd y \<Longrightarrow> 100 dvd y"
    by (rule dvd_trans [of 100 400]) simp_all
  show ?thesis
    using a b by (auto simp: DaysInYear_def mod_eq_0_iff_dvd)
qed

lemma DaysInYear_diff: "DayFromYear (y + 1) = DayFromYear y + DaysInYear y"
proof -
  have p: "(0::int) < 4" "(0::int) < 100" "(0::int) < 400" by simp_all
  have s: "y + 1 - 1970 = y - 1970 + 1" "y + 1 - 1969 = y - 1969 + 1"
    "y + 1 - 1901 = y - 1901 + 1" "y + 1 - 1601 = y - 1601 + 1"
    by simp_all
  show ?thesis
    unfolding DayFromYear_def s div_add_one [OF p(1)] div_add_one [OF p(2)]
      div_add_one [OF p(3)] dvd_shifted DaysInYear_dvd
    by (simp add: algebra_simps)
qed

lemma DaysInYear_range: "365 \<le> DaysInYear y \<and> DaysInYear y \<le> 366"
  by (simp add: DaysInYear_def)

lemma DayFromYear_mono: "y \<le> y' \<Longrightarrow> DayFromYear y \<le> DayFromYear y'"
proof (induction y' rule: int_ge_induct)
  case base
  show ?case by simp
next
  case (step i)
  have "DayFromYear (i + 1) = DayFromYear i + DaysInYear i" by (rule DaysInYear_diff)
  with step.IH DaysInYear_range [of i] show ?case by linarith
qed

lemma YearFromDay_unique:
  assumes "DayFromYear y \<le> d" and "d < DayFromYear (y + 1)"
  shows "YearFromDay d = y"
proof (rule antisym)
  show "YearFromDay d \<le> y"
  proof (rule ccontr)
    assume "\<not> YearFromDay d \<le> y"
    then have "y + 1 \<le> YearFromDay d" by simp
    then have "DayFromYear (y + 1) \<le> DayFromYear (YearFromDay d)" by (rule DayFromYear_mono)
    with YearFromDay_lower [of d] assms(2) show False by linarith
  qed
  show "y \<le> YearFromDay d"
  proof (rule ccontr)
    assume "\<not> y \<le> YearFromDay d"
    then have "YearFromDay d + 1 \<le> y" by simp
    then have "DayFromYear (YearFromDay d + 1) \<le> DayFromYear y" by (rule DayFromYear_mono)
    with YearFromDay_upper [of d] assms(1) show False by linarith
  qed
qed


lemma Day_MakeDate:
  assumes "0 \<le> tm" "tm < msPerDay"
  shows "Day (MakeDate k tm) = k" and "TimeWithinDay (MakeDate k tm) = tm"
proof -
  have e: "MakeDate k tm = msPerDay * k + tm"
    by (simp add: MakeDate_def mult.commute)
  show "Day (MakeDate k tm) = k"
    unfolding Day_def by (rule int_div_pos_eq [OF e assms])
  show "TimeWithinDay (MakeDate k tm) = tm"
    unfolding TimeWithinDay_def by (rule int_mod_pos_eq [OF e assms])
qed

lemma month_cases:
  fixes mn :: int
  assumes "0 \<le> mn" "mn \<le> 11"
  shows "mn = 0 \<or> mn = 1 \<or> mn = 2 \<or> mn = 3 \<or> mn = 4 \<or> mn = 5 \<or> mn = 6 \<or> mn = 7
       \<or> mn = 8 \<or> mn = 9 \<or> mn = 10 \<or> mn = 11"
proof -
  have "mn \<in> set [0..11]" using assms by simp
  then show ?thesis by (simp add: upto_rec1)
qed

lemma MakeDay_in_year:
  assumes "0 \<le> mn" "mn \<le> 11"
  shows "MakeDay y mn dt = DayOfMonthStart y mn + dt - 1"
proof -
  have "mn div 12 = 0" "mn mod 12 = mn" using assms by simp_all
  then show ?thesis by (simp add: MakeDay_def Let_def)
qed

lemma fields_of_day:
  assumes "0 \<le> mn" "mn \<le> 11" "1 \<le> dt" "dt \<le> 28"
    and "Day t = MakeDay y mn dt"
  shows "YearFromTime t = y" and "MonthFromTime t = mn" and "DateFromTime t = dt"
proof -
  define l :: int where "l = (if DaysInYear y = 366 then 1 else 0)"
  have dy: "DaysInYear y = 365 + l"
    using DaysInYear_range [of y] by (simp add: l_def DaysInYear_def)
  have l01: "l = 0 \<or> l = 1" by (simp add: l_def)
  define w where "w = DayOfMonthStart y mn - DayFromYear y + dt - 1"
  have d: "Day t = DayFromYear y + w"
    by (simp add: assms(5) MakeDay_in_year [OF assms(1,2)] w_def)
  have w: "0 \<le> w \<and> w < 365 + l"
    using month_cases [OF assms(1,2)] assms(3,4) l01
    unfolding w_def DayOfMonthStart_def Let_def l_def [symmetric]
    by (elim disjE) simp_all
  have "DayFromYear y \<le> Day t" using d w by simp
  moreover have "Day t < DayFromYear (y + 1)"
    using d w by (simp add: DaysInYear_diff dy)
  ultimately have yd: "YearFromDay (Day t) = y" by (rule YearFromDay_unique)
  then show y: "YearFromTime t = y" by (simp add: YearFromTime_def)
  have dw: "DayWithinYear t = w" by (simp add: DayWithinYear_def y d)
  have il: "InLeapYear t = l" by (simp add: InLeapYear_def y l_def)
  have wm: "w = DayOfMonthStart y mn - DayFromYear y + dt - 1" by (rule w_def)
  show m: "MonthFromTime t = mn"
    using month_cases [OF assms(1,2)] assms(3,4) l01
    unfolding MonthFromTime_def dw il Let_def wm DayOfMonthStart_def l_def [symmetric]
    by (elim disjE) simp_all
  show "DateFromTime t = dt"
    using month_cases [OF assms(1,2)] l01
    unfolding DateFromTime_def m dw il Let_def wm DayOfMonthStart_def l_def [symmetric]
    by (elim disjE) simp_all
qed

lemma DayWithinYear_nonneg: "0 \<le> DayWithinYear t"
  using YearFromDay_lower [of "Day t"] by (simp add: DayWithinYear_def YearFromTime_def)

lemma InLeapYear_cases: "InLeapYear t = 0 \<or> InLeapYear t = 1"
  by (simp add: InLeapYear_def)

lemma DateFromTime_pos: "1 \<le> DateFromTime t"
  using DayWithinYear_nonneg [of t] InLeapYear_cases [of t]
  unfolding DateFromTime_def MonthFromTime_def Let_def
  by (elim disjE) (simp_all split: if_splits)

lemma TimeWithinDay_range: "0 \<le> TimeWithinDay t \<and> TimeWithinDay t < msPerDay"
  by (simp add: TimeWithinDay_def msPerDay_def)

lemma MakeDay_normalise:
  "MakeDay y m dt = MakeDay (y + m div 12) (m mod 12) dt"
proof -
  have "(m mod 12) div 12 = 0" by simp
  then show ?thesis by (simp add: MakeDay_def Let_def)
qed

lemma addCalendarMonths_fixed_offset:
  assumes "getDate (\<lambda>_ _. c) d \<le> 28"
  shows "getFullYear (\<lambda>_ _. c) (addCalendarMonths (\<lambda>_ _. c) n d)
           = getFullYear (\<lambda>_ _. c) d + (getMonth (\<lambda>_ _. c) d + n) div 12"
    and "getMonth (\<lambda>_ _. c) (addCalendarMonths (\<lambda>_ _. c) n d) = (getMonth (\<lambda>_ _. c) d + n) mod 12"
    and "getDate (\<lambda>_ _. c) (addCalendarMonths (\<lambda>_ _. c) n d) = getDate (\<lambda>_ _. c) d"
    and "TimeWithinDay (LocalTime (\<lambda>_ _. c) (addCalendarMonths (\<lambda>_ _. c) n d))
           = TimeWithinDay (LocalTime (\<lambda>_ _. c) d)"
proof -
  define L where "L = LocalTime (\<lambda>_ _. c) d"
  define R where "R = MakeDate (MakeDay (YearFromTime L) (MonthFromTime L + n) (DateFromTime L))
      (TimeWithinDay L)"
  have r: "LocalTime (\<lambda>_ _. c) (addCalendarMonths (\<lambda>_ _. c) n d) = R"
    by (simp add: addCalendarMonths_def setMonth_def getMonth_def Let_def LocalTime_def UTC_def
        R_def L_def)
  note tw = TimeWithinDay_range [of L]
  have dayR: "Day R = MakeDay (YearFromTime L + (MonthFromTime L + n) div 12)
      ((MonthFromTime L + n) mod 12) (DateFromTime L)"
    unfolding R_def using Day_MakeDate(1) [of "TimeWithinDay L"] tw
    by (simp add: MakeDay_normalise [symmetric])
  have m: "0 \<le> (MonthFromTime L + n) mod 12" "(MonthFromTime L + n) mod 12 \<le> 11"
    by simp_all
  have dt: "1 \<le> DateFromTime L" by (rule DateFromTime_pos)
  have dt': "DateFromTime L \<le> 28" using assms by (simp add: getDate_def L_def)
  note f = fields_of_day [OF m dt dt' dayR]
  show "getFullYear (\<lambda>_ _. c) (addCalendarMonths (\<lambda>_ _. c) n d)
           = getFullYear (\<lambda>_ _. c) d + (getMonth (\<lambda>_ _. c) d + n) div 12"
    unfolding getFullYear_def getMonth_def r L_def [symmetric] by (rule f(1))
  show "getMonth (\<lambda>_ _. c) (addCalendarMonths (\<lambda>_ _. c) n d) = (getMonth (\<lambda>_ _. c) d + n) mod 12"
    unfolding getMonth_def r L_def [symmetric] by (rule f(2))
  show "getDate (\<lambda>_ _. c) (addCalendarMonths (\<lambda>_ _. c) n d) = getDate (\<lambda>_ _. c) d"
    unfolding getDate_def r L_def [symmetric] by (rule f(3))
  show "TimeWithinDay (LocalTime (\<lambda>_ _. c) (addCalendarMonths (\<lambda>_ _. c) n d))
           = TimeWithinDay (LocalTime (\<lambda>_ _. c) d)"
    unfolding r L_def [symmetric] R_def using Day_MakeDate(2) [of "TimeWithinDay L"] tw
    by simp
qed

text \<open>
  Claim C10. \<^verbatim>\<open>calculateNextDueDate\<close> returns \<^verbatim>\<open>null\<close> for \<^verbatim>\<open>once\<close>, whatever the dates. For
  \<^verbatim>\<open>monthly\<close>, \<^verbatim>\<open>quarterly\<close> and \<^verbatim>\<open>annually\<close> it returns the base date (the last due date,
  or the clock when there is none) moved on by 1, 3 and 12 calendar months under the month
  rollover of \<^verbatim>\<open>setMonth\<close>. The annual case is written with \<^verbatim>\<open>setFullYear\<close>; it agrees with
  adding 12 months for every date and every time zone, 29 February included. Moving a date
  on by \<open>n\<close> months means this: in a time zone with a fixed offset, a date on one of the
  first 28 days of a month keeps its day of month and its time of day, and its month and
  year are those \<open>n\<close> months later. Later days of the month roll over into the next month
  where the target month is shorter.
\<close>

theorem calculateNextDueDate_calendar_months:
  "calculateNextDueDate tza now once lastDueDate = None
   \<and> calculateNextDueDate tza now monthly lastDueDate
       = Some (addCalendarMonths tza 1 (case lastDueDate of None \<Rightarrow> now | Some d \<Rightarrow> d))
   \<and> calculateNextDueDate tza now quarterly lastDueDate
       = Some (addCalendarMonths tza 3 (case lastDueDate of None \<Rightarrow> now | Some d \<Rightarrow> d))
   \<and> calculateNextDueDate tza now annually lastDueDate
       = Some (addCalendarMonths tza 12 (case lastDueDate of None \<Rightarrow> now | Some d \<Rightarrow> d))
   \<and> (\<forall>c n d. getDate (\<lambda>_ _. c) d \<le> 28 \<longrightarrow>
          getFullYear (\<lambda>_ _. c) (addCalendarMonths (\<lambda>_ _. c) n d)
            = getFullYear (\<lambda>_ _. c) d + (getMonth (\<lambda>_ _. c) d + n) div 12
          \<and> getMonth (\<lambda>_ _. c) (addCalendarMonths (\<lambda>_ _. c) n d)
            = (getMonth (\<lambda>_ _. c) d + n) mod 12
          \<and> getDate (\<lambda>_ _. c) (addCalendarMonths (\<lambda>_ _. c) n d) = getDate (\<lambda>_ _. c) d
          \<and> TimeWithinDay (LocalTime (\<lambda>_ _. c) (addCalendarMonths (\<lambda>_ _. c) n d))
            = TimeWithinDay (LocalTime (\<lambda>_ _. c) d))"
proof -
  have a: "calculateNextDueDate tza now once lastDueDate = None
   \<and> calculateNextDueDate tza now monthly lastDueDate
       = Some (addCalendarMonths tza 1 (case lastDueDate of None \<Rightarrow> now | Some d \<Rightarrow> d))
   \<and> calculateNextDueDate tza now quarterly lastDueDate
       = Some (addCalendarMonths tza 3 (case lastDueDate of None \<Rightarrow> now | Some d \<Rightarrow> d))
   \<and> calculateNextDueDate tza now annually lastDueDate
       = Some (addCalendarMonths tza 12 (case lastDueDate of None \<Rightarrow> now | Some d \<Rightarrow> d))"
    by (simp add: calculateNextDueDate_def addCalendarMonths_def setFullYear_next_year Let_def)
  have b: "\<forall>c n d. getDate (\<lambda>_ _. c) d \<le> 28 \<longrightarrow>
          getFullYear (\<lambda>_ _. c) (addCalendarMonths (\<lambda>_ _. c) n d)
            = getFullYear (\<lambda>_ _. c) d + (getMonth (\<lambda>_ _. c) d + n) div 12
          \<and> getMonth (\<lambda>_ _. c) (addCalendarMonths (\<lambda>_ _. c) n d)
            = (getMonth (\<lambda>_ _. c) d + n) mod 12
          \<and> getDate (\<lambda>_ _. c) (addCalendarMonths (\<lambda>_ _. c) n d) = getDate (\<lambda>_ _. c) d
          \<and> TimeWithinDay (LocalTime (\<lambda>_ _. c) (addCalendarMonths (\<lambda>_ _. c) n d))
            = TimeWithinDay (LocalTime (\<lambda>_ _. c) d)"
    by (intro allI impI conjI) (rule addCalendarMonths_fixed_offset, assumption)+
  from a b show ?thesis by (simp only: simp_thms)
qed

text \<open>
  29 February 2024, 00:00 UTC, is the time value 1709164800000; twelve months on under the
  rollover is 1 March 2025, the time value 1740787200000.
\<close>

lemma YearFromDay_feb29: "YearFromDay 19782 = 2024"
  by (simp add: YearFromDay_def DayFromYear_def Let_def)

lemma Day_feb29: "Day 1709164800000 = 19782" "TimeWithinDay 1709164800000 = 0"
  by (simp_all add: Day_def TimeWithinDay_def msPerDay_def)

lemma DayWithinYear_feb29: "DayWithinYear 1709164800000 = 59"
  by (simp add: DayWithinYear_def YearFromTime_def Day_feb29 YearFromDay_feb29 DayFromYear_def)

lemma InLeapYear_feb29: "InLeapYear 1709164800000 = 1"
  by (simp add: InLeapYear_def YearFromTime_def Day_feb29 YearFromDay_feb29 DaysInYear_def)

lemma MonthFromTime_feb29: "MonthFromTime 1709164800000 = 1"
  by (simp add: MonthFromTime_def DayWithinYear_feb29 InLeapYear_feb29 Let_def)

lemma DateFromTime_feb29: "DateFromTime 1709164800000 = 29"
  by (simp add: DateFromTime_def MonthFromTime_feb29 DayWithinYear_feb29 InLeapYear_feb29 Let_def)

lemma MakeDay_2024_13_29: "MakeDay 2024 13 29 = 20148"
  by (simp add: MakeDay_def DayOfMonthStart_def DaysInYear_def DayFromYear_def Let_def)

lemma addCalendarMonths_feb29:
  "addCalendarMonths (\<lambda>_ _. 0) 12 1709164800000 = 1740787200000"
  by (simp add: addCalendarMonths_def setMonth_def getMonth_def UTC_def LocalTime_def
      YearFromTime_def Day_feb29 YearFromDay_feb29 MonthFromTime_feb29 DateFromTime_feb29
      MakeDay_2024_13_29 MakeDate_def msPerDay_def Let_def)

text \<open>
  The theorem at these dates in UTC: the annual recurrence of 29 February 2024 is
  1 March 2025, and the quarterly recurrence of 15 January 2025 (the time value
  1736899200000) is 15 April 2025.
\<close>

lemma fields_jan15:
  "getFullYear (\<lambda>_ _. 0) 1736899200000 = 2025"
  "getMonth (\<lambda>_ _. 0) 1736899200000 = 0"
  "getDate (\<lambda>_ _. 0) 1736899200000 = 15"
proof -
  have "MakeDay 2025 0 15 = 20103"
    by (simp add: MakeDay_def DayOfMonthStart_def DayFromYear_def Let_def)
  then have d: "Day 1736899200000 = MakeDay 2025 0 15"
    by (simp add: Day_def msPerDay_def)
  have m: "(0::int) \<le> 0" "(0::int) \<le> 11" "(1::int) \<le> 15" "(15::int) \<le> 28" by simp_all
  note f = fields_of_day [OF m d]
  show "getFullYear (\<lambda>_ _. 0) 1736899200000 = 2025"
    "getMonth (\<lambda>_ _. 0) 1736899200000 = 0"
    "getDate (\<lambda>_ _. 0) 1736899200000 = 15"
    by (simp_all add: getFullYear_def getMonth_def getDate_def LocalTime_def f)
qed

theorem calculateNextDueDate_calendar_months_witness:
  "calculateNextDueDate (\<lambda>_ _. 0) 0 once (Some 1709164800000) = None
   \<and> calculateNextDueDate (\<lambda>_ _. 0) 0 annually (Some 1709164800000) = Some 1740787200000
   \<and> getDate (\<lambda>_ _. 0) 1736899200000 \<le> 28
   \<and> getFullYear (\<lambda>_ _. 0) (addCalendarMonths (\<lambda>_ _. 0) 3 1736899200000) = 2025
   \<and> getMonth (\<lambda>_ _. 0) (addCalendarMonths (\<lambda>_ _. 0) 3 1736899200000) = 3
   \<and> getDate (\<lambda>_ _. 0) (addCalendarMonths (\<lambda>_ _. 0) 3 1736899200000) = 15"
proof -
  note t = calculateNextDueDate_calendar_months [of "\<lambda>_ _. 0" 0 "Some 1709164800000"]
  from t have o: "calculateNextDueDate (\<lambda>_ _. 0) 0 once (Some 1709164800000) = None"
    by (rule conjunct1)
  from t have "calculateNextDueDate (\<lambda>_ _. 0) 0 annually (Some 1709164800000)
      = Some (addCalendarMonths (\<lambda>_ _. 0) 12 1709164800000)"
    by simp
  then have a: "calculateNextDueDate (\<lambda>_ _. 0) 0 annually (Some 1709164800000) = Some 1740787200000"
    by (simp only: addCalendarMonths_feb29)
  have d: "getDate (\<lambda>_ _. 0) 1736899200000 \<le> 28"
    by (simp add: fields_jan15)
  from t have "getDate (\<lambda>_ _. 0) 1736899200000 \<le> 28 \<longrightarrow>
          getFullYear (\<lambda>_ _. 0) (addCalendarMonths (\<lambda>_ _. 0) 3 1736899200000)
            = getFullYear (\<lambda>_ _. 0) 1736899200000 + (getMonth (\<lambda>_ _. 0) 1736899200000 + 3) div 12
          \<and> getMonth (\<lambda>_ _. 0) (addCalendarMonths (\<lambda>_ _. 0) 3 1736899200000)
            = (getMonth (\<lambda>_ _. 0) 1736899200000 + 3) mod 12
          \<and> getDate (\<lambda>_ _. 0) (addCalendarMonths (\<lambda>_ _. 0) 3 1736899200000)
            = getDate (\<lambda>_ _. 0) 1736899200000"
    by blast
  with d have f: "getFullYear (\<lambda>_ _. 0) (addCalendarMonths (\<lambda>_ _. 0) 3 1736899200000) = 2025
   \<and> getMonth (\<lambda>_ _. 0) (addCalendarMonths (\<lambda>_ _. 0) 3 1736899200000) = 3
   \<and> getDate (\<lambda>_ _. 0) (addCalendarMonths (\<lambda>_ _. 0) 3 1736899200000) = 15"
    by (simp add: fields_jan15)
  show ?thesis
    apply (rule conjI, rule o)
    apply (rule conjI, rule a)
    apply (rule conjI, rule d)
    apply (rule f)
    done
qed

section \<open>Deadline projection: window, rounding and order\<close>
























section \<open>Quarterly tax reminders: the deadlines kept and the reminders scheduled\<close>

lemma setDate_week_before:
  "setDate tza t (getDate tza t - 7) = UTC tza (LocalTime tza t - 7 * msPerDay)"
  using setDate_shift [of tza t "- 7"] by simp

lemma scheduleQuarters_result:
  "scheduleQuarters tza fmtLocal fmtISO nanoid now tenantId cid (Some d) k qs =
     Inr (Some (d\<lparr>complianceReminders := complianceReminders d @
       map (\<lambda>(i, q). quarterReminder tza fmtLocal fmtISO now tenantId cid (nanoid i) q)
         (enumerate k (filter (\<lambda>q. now < q_date q) qs))\<rparr>))"
proof (induction qs arbitrary: d k)
  case Nil
  show ?case by simp
next
  case (Cons q qs)
  show ?case
  proof (cases "now < q_date q")
    case False
    then show ?thesis by (simp add: Cons.IH)
  next
    case True
    then show ?thesis
      by (simp add: Cons.IH scheduleReminder_def quarterReminder_def Let_def)
  qed
qed

lemma quarterReminder_fields:
  "rem_scheduledFor (quarterReminder tza fmtLocal fmtISO now tenantId cid rid q)
     = UTC tza (LocalTime tza (q_date q) - 7 * msPerDay)"
  "rem_message (quarterReminder tza fmtLocal fmtISO now tenantId cid rid q)
     = ''Reminder: '' @ q_name q @ '' estimated taxes are due on '' @ fmtLocal (q_date q)"
  "rem_reminderType (quarterReminder tza fmtLocal fmtISO now tenantId cid rid q) = email"
  "rem_sent (quarterReminder tza fmtLocal fmtISO now tenantId cid rid q) = False"
  "rem_tenantId (quarterReminder tza fmtLocal fmtISO now tenantId cid rid q) = tenantId"
  "rem_complianceId (quarterReminder tza fmtLocal fmtISO now tenantId cid rid q) = cid"
  "rem_id (quarterReminder tza fmtLocal fmtISO now tenantId cid rid q) = rid"
  by (simp_all add: quarterReminder_def setDate_week_before reminderMessage_def)

lemma newDate_modern:
  "100 \<le> y \<Longrightarrow> newDate tza y m dt = UTC tza (MakeDate (MakeDay y m dt) 0)"
  by (simp add: newDate_def Let_def)

lemma local_midnight_fields:
  assumes "0 \<le> mn" "mn \<le> 11" "1 \<le> dt" "dt \<le> 28"
  shows "YearFromTime (MakeDate (MakeDay y mn dt) 0) = y
       \<and> MonthFromTime (MakeDate (MakeDay y mn dt) 0) = mn
       \<and> DateFromTime (MakeDate (MakeDay y mn dt) 0) = dt
       \<and> TimeWithinDay (MakeDate (MakeDay y mn dt) 0) = 0"
proof -
  have z: "(0::int) \<le> 0" "0 < msPerDay" by (simp_all add: msPerDay_def)
  note d = Day_MakeDate [OF z, of "MakeDay y mn dt"]
  from fields_of_day [OF assms d(1)] d(2) show ?thesis by simp
qed

lemma quarters_calendar:
  assumes "100 \<le> y"
  shows "map q_name (quarters tza y) = [''Q1'', ''Q2'', ''Q3'', ''Q4'']"
    and "map q_date (quarters tza y) =
           [UTC tza (MakeDate (MakeDay y 3 15) 0), UTC tza (MakeDate (MakeDay y 5 15) 0),
            UTC tza (MakeDate (MakeDay y 8 15) 0), UTC tza (MakeDate (MakeDay (y + 1) 0 15) 0)]"
  using assms by (simp_all add: quarters_def newDate_modern)


lemma MakeDay_2025:
  "MakeDay 2025 2 1 = 20148" "MakeDay 2025 3 15 = 20193" "MakeDay 2025 5 15 = 20254"
  "MakeDay 2025 8 15 = 20346" "MakeDay 2026 0 15 = 20468"
  by (simp_all add: MakeDay_def DayOfMonthStart_def DaysInYear_def DayFromYear_def Let_def)

lemma utc_of_local_lower:
  assumes "\<forall>t b. \<bar>tza t b\<bar> \<le> msPerDay"
  shows "(k - 1) * msPerDay \<le> UTC tza (MakeDate k 0)"
proof -
  from assms have "tza (MakeDate k 0) False \<le> msPerDay"
    by (simp add: abs_le_iff)
  then show ?thesis
    by (simp add: UTC_def MakeDate_def algebra_simps)
qed

lemma march_first_before_deadlines:
  assumes b: "\<forall>t b. \<bar>tza t b\<bar> \<le> msPerDay"
    and f: "getFullYear tza now = 2025" "getMonth tza now = 2" "getDate tza now = 1"
  shows "filter (\<lambda>q. now < q_date q) (quarters tza 2025) = quarters tza 2025"
proof -
  define L where "L = LocalTime tza now"
  have "MakeDay (YearFromTime L) (MonthFromTime L) (DateFromTime L + 0) = Day L + 0"
    by (rule MakeDay_of_fields)
  with f have dayL: "Day L = 20148"
    by (simp add: getFullYear_def getMonth_def getDate_def L_def MakeDay_2025)
  have p: "0 < msPerDay" by (simp add: msPerDay_def)
  from int_div_bounds(2) [OF p, of L] dayL have "L < 20149 * msPerDay"
    by (simp add: Day_def algebra_simps)
  moreover from b have "- tza now True \<le> msPerDay"
    by (simp add: abs_le_iff)
  moreover have "now = L - tza now True"
    by (simp add: L_def LocalTime_def)
  ultimately have n: "now < 20150 * msPerDay" by linarith
  have q1: "now < UTC tza (MakeDate 20193 0)"
    using utc_of_local_lower [OF b, of 20193] n by (simp add: msPerDay_def)
  have q2: "now < UTC tza (MakeDate 20254 0)"
    using utc_of_local_lower [OF b, of 20254] n by (simp add: msPerDay_def)
  have q3: "now < UTC tza (MakeDate 20346 0)"
    using utc_of_local_lower [OF b, of 20346] n by (simp add: msPerDay_def)
  have q4: "now < UTC tza (MakeDate 20468 0)"
    using utc_of_local_lower [OF b, of 20468] n by (simp add: msPerDay_def)
  show ?thesis
    using q1 q2 q3 q4 by (simp add: quarters_def newDate_def Let_def MakeDay_2025)
qed


text \<open>
  Claim C5. Let \<open>Y\<close> be the local year of the clock, not a two-digit year (a year from 0 to
  99 would be read as 1900 + year by the \<^verbatim>\<open>Date\<close> constructor). With the database at hand,
  \<^verbatim>\<open>scheduleQuarterlyTaxReminders\<close> appends reminders and nothing else. The four quarters
  \<^verbatim>\<open>Q1\<close> to \<^verbatim>\<open>Q4\<close> are due at local midnight of 15 April, 15 June and 15 September of \<open>Y\<close>
  and of 15 January of \<open>Y + 1\<close>. One reminder is appended for each quarter whose date is
  strictly after \<open>now\<close>, in order: scheduled seven local calendar days before the date, by
  email, unsent, with the message that names the quarter and the formatted date. When the
  local date of the clock is 1 March 2025, in any time zone whose offset is at most a day,
  there are exactly four reminders.
\<close>

theorem quarterlyTaxReminders_future_deadlines:
  assumes "getFullYear tza now = Y" and "100 \<le> Y"
  shows "\<exists>new.
     scheduleQuarterlyTaxReminders tza fmtLocal fmtISO nanoid (Some d) now tenantId cid
       = Inr (Some (d\<lparr>complianceReminders := complianceReminders d @ new\<rparr>))
     \<and> map q_name (quarters tza Y) = [''Q1'', ''Q2'', ''Q3'', ''Q4'']
     \<and> map q_date (quarters tza Y) =
           [UTC tza (MakeDate (MakeDay Y 3 15) 0), UTC tza (MakeDate (MakeDay Y 5 15) 0),
            UTC tza (MakeDate (MakeDay Y 8 15) 0), UTC tza (MakeDate (MakeDay (Y + 1) 0 15) 0)]
     \<and> (YearFromTime (MakeDate (MakeDay Y 3 15) 0) = Y
          \<and> MonthFromTime (MakeDate (MakeDay Y 3 15) 0) = 3
          \<and> DateFromTime (MakeDate (MakeDay Y 3 15) 0) = 15
          \<and> TimeWithinDay (MakeDate (MakeDay Y 3 15) 0) = 0)
     \<and> (YearFromTime (MakeDate (MakeDay Y 5 15) 0) = Y
          \<and> MonthFromTime (MakeDate (MakeDay Y 5 15) 0) = 5
          \<and> DateFromTime (MakeDate (MakeDay Y 5 15) 0) = 15
          \<and> TimeWithinDay (MakeDate (MakeDay Y 5 15) 0) = 0)
     \<and> (YearFromTime (MakeDate (MakeDay Y 8 15) 0) = Y
          \<and> MonthFromTime (MakeDate (MakeDay Y 8 15) 0) = 8
          \<and> DateFromTime (MakeDate (MakeDay Y 8 15) 0) = 15
          \<and> TimeWithinDay (MakeDate (MakeDay Y 8 15) 0) = 0)
     \<and> (YearFromTime (MakeDate (MakeDay (Y + 1) 0 15) 0) = Y + 1
          \<and> MonthFromTime (MakeDate (MakeDay (Y + 1) 0 15) 0) = 0
          \<and> DateFromTime (MakeDate (MakeDay (Y + 1) 0 15) 0) = 15
          \<and> TimeWithinDay (MakeDate (MakeDay (Y + 1) 0 15) 0) = 0)
     \<and> length new = length (filter (\<lambda>q. now < q_date q) (quarters tza Y))
     \<and> (\<forall>i < length new.
          rem_scheduledFor (new ! i)
            = UTC tza (LocalTime tza (q_date (filter (\<lambda>q. now < q_date q) (quarters tza Y) ! i))
                - 7 * msPerDay)
          \<and> rem_message (new ! i)
            = ''Reminder: '' @ q_name (filter (\<lambda>q. now < q_date q) (quarters tza Y) ! i)
                @ '' estimated taxes are due on ''
                @ fmtLocal (q_date (filter (\<lambda>q. now < q_date q) (quarters tza Y) ! i))
          \<and> rem_reminderType (new ! i) = email
          \<and> rem_sent (new ! i) = False
          \<and> rem_tenantId (new ! i) = tenantId
          \<and> rem_complianceId (new ! i) = cid
          \<and> rem_id (new ! i) = nanoid i)
     \<and> ((\<forall>t b. \<bar>tza t b\<bar> \<le> msPerDay) \<and> Y = 2025 \<and> getMonth tza now = 2 \<and> getDate tza now = 1
          \<longrightarrow> length new = 4)"
proof -
  let ?kept = "filter (\<lambda>q. now < q_date q) (quarters tza Y)"
  let ?new = "map (\<lambda>(i, q). quarterReminder tza fmtLocal fmtISO now tenantId cid (nanoid i) q)
         (enumerate 0 ?kept)"
  have r: "scheduleQuarterlyTaxReminders tza fmtLocal fmtISO nanoid (Some d) now tenantId cid
       = Inr (Some (d\<lparr>complianceReminders := complianceReminders d @ ?new\<rparr>))"
    by (simp add: scheduleQuarterlyTaxReminders_def Let_def assms(1) scheduleQuarters_result)
  have l: "length ?new = length ?kept" by simp
  have n: "\<forall>i < length ?new.
          rem_scheduledFor (?new ! i) = UTC tza (LocalTime tza (q_date (?kept ! i)) - 7 * msPerDay)
          \<and> rem_message (?new ! i)
            = ''Reminder: '' @ q_name (?kept ! i) @ '' estimated taxes are due on ''
                @ fmtLocal (q_date (?kept ! i))
          \<and> rem_reminderType (?new ! i) = email
          \<and> rem_sent (?new ! i) = False
          \<and> rem_tenantId (?new ! i) = tenantId
          \<and> rem_complianceId (?new ! i) = cid
          \<and> rem_id (?new ! i) = nanoid i"
    by (simp add: nth_enumerate_eq quarterReminder_fields)
  have m: "(0::int) \<le> 3" "(3::int) \<le> 11" "(0::int) \<le> 5" "(5::int) \<le> 11" "(0::int) \<le> 8"
    "(8::int) \<le> 11" "(0::int) \<le> 0" "(0::int) \<le> 11" "(1::int) \<le> 15" "(15::int) \<le> 28"
    by simp_all
  note f1 = local_midnight_fields [OF m(1) m(2) m(9) m(10), of Y]
  note f2 = local_midnight_fields [OF m(3) m(4) m(9) m(10), of Y]
  note f3 = local_midnight_fields [OF m(5) m(6) m(9) m(10), of Y]
  note f4 = local_midnight_fields [OF m(7) m(8) m(9) m(10), of "Y + 1"]
  have s: "(\<forall>t b. \<bar>tza t b\<bar> \<le> msPerDay) \<and> Y = 2025 \<and> getMonth tza now = 2 \<and> getDate tza now = 1
          \<longrightarrow> length ?new = 4"
  proof
    assume a: "(\<forall>t b. \<bar>tza t b\<bar> \<le> msPerDay) \<and> Y = 2025 \<and> getMonth tza now = 2
        \<and> getDate tza now = 1"
    then have y: "getFullYear tza now = 2025" using assms(1) by simp
    from a have "filter (\<lambda>q. now < q_date q) (quarters tza 2025) = quarters tza 2025"
      using march_first_before_deadlines [OF _ y] by blast
    with a have "?kept = quarters tza Y" by simp
    then show "length ?new = 4" by (simp add: quarters_def)
  qed
  show ?thesis
    apply (rule exI [of _ ?new])
    apply (rule conjI, rule r)
    apply (rule conjI, rule quarters_calendar(1) [OF assms(2)])
    apply (rule conjI, rule quarters_calendar(2) [OF assms(2)])
    apply (rule conjI, rule f1)
    apply (rule conjI, rule f2)
    apply (rule conjI, rule f3)
    apply (rule conjI, rule f4)
    apply (rule conjI, rule l)
    apply (rule conjI, rule n)
    apply (rule s)
    done
qed


text \<open>
  The theorem at 2025-03-01T00:00 in UTC on an empty database: four reminders, the first
  on 8 April 2025 for \<^verbatim>\<open>Q1\<close>, the last on 8 January 2026 for \<^verbatim>\<open>Q4\<close>.
\<close>

lemma march_first_fields:
  "getFullYear (\<lambda>_ _. 0) 1740787200000 = 2025"
  "getMonth (\<lambda>_ _. 0) 1740787200000 = 2"
  "getDate (\<lambda>_ _. 0) 1740787200000 = 1"
proof -
  have d: "Day 1740787200000 = MakeDay 2025 2 1"
    by (simp add: Day_def msPerDay_def MakeDay_2025)
  have m: "(0::int) \<le> 2" "(2::int) \<le> 11" "(1::int) \<le> 1" "(1::int) \<le> 28" by simp_all
  note f = fields_of_day [OF m d]
  show "getFullYear (\<lambda>_ _. 0) 1740787200000 = 2025"
    "getMonth (\<lambda>_ _. 0) 1740787200000 = 2"
    "getDate (\<lambda>_ _. 0) 1740787200000 = 1"
    by (simp_all add: getFullYear_def getMonth_def getDate_def LocalTime_def f)
qed

lemma quarters_2025:
  "quarters (\<lambda>_ _. 0) 2025 =
     [\<lparr>q_date = 1744675200000, q_name = ''Q1''\<rparr>, \<lparr>q_date = 1749945600000, q_name = ''Q2''\<rparr>,
      \<lparr>q_date = 1757894400000, q_name = ''Q3''\<rparr>, \<lparr>q_date = 1768435200000, q_name = ''Q4''\<rparr>]"
  by (simp add: quarters_def newDate_def Let_def MakeDay_2025 MakeDate_def UTC_def msPerDay_def)

theorem quarterlyTaxReminders_future_deadlines_witness:
  "getFullYear (\<lambda>_ _. 0) 1740787200000 = 2025
   \<and> getMonth (\<lambda>_ _. 0) 1740787200000 = 2
   \<and> getDate (\<lambda>_ _. 0) 1740787200000 = 1
   \<and> (\<exists>new.
        scheduleQuarterlyTaxReminders (\<lambda>_ _. 0) exampleDateString (\<lambda>_. ''-'') exampleNanoid
            (Some emptyDb) 1740787200000 ''T1'' ''R1''
          = Inr (Some (emptyDb\<lparr>complianceReminders := complianceReminders emptyDb @ new\<rparr>))
        \<and> length new = 4
        \<and> rem_scheduledFor (new ! 0) = 1744070400000
        \<and> rem_message (new ! 0) = ''Reminder: Q1 estimated taxes are due on 4/15/2025''
        \<and> rem_scheduledFor (new ! 3) = 1767830400000
        \<and> rem_message (new ! 3) = ''Reminder: Q4 estimated taxes are due on 1/15/2026'')"
proof -
  have y: "(100::int) \<le> 2025" by simp
  have b: "\<forall>t b. \<bar>(\<lambda>_ _. 0::int) t b\<bar> \<le> msPerDay" by (simp add: msPerDay_def)
  have k: "filter (\<lambda>q. 1740787200000 < q_date q) (quarters (\<lambda>_ _. 0) 2025)
      = quarters (\<lambda>_ _. 0) 2025"
    by (simp add: quarters_2025)
  from quarterlyTaxReminders_future_deadlines [OF march_first_fields(1) y,
      where fmtLocal = exampleDateString and fmtISO = "\<lambda>_. ''-''" and nanoid = exampleNanoid
        and d = emptyDb and tenantId = "''T1''" and cid = "''R1''"]
  obtain new where
    r: "scheduleQuarterlyTaxReminders (\<lambda>_ _. 0) exampleDateString (\<lambda>_. ''-'') exampleNanoid
            (Some emptyDb) 1740787200000 ''T1'' ''R1''
          = Inr (Some (emptyDb\<lparr>complianceReminders := complianceReminders emptyDb @ new\<rparr>))"
    and n: "\<forall>i < length new.
          rem_scheduledFor (new ! i)
            = UTC (\<lambda>_ _. 0) (LocalTime (\<lambda>_ _. 0)
                (q_date (filter (\<lambda>q. 1740787200000 < q_date q) (quarters (\<lambda>_ _. 0) 2025) ! i))
                - 7 * msPerDay)
          \<and> rem_message (new ! i)
            = ''Reminder: '' @ q_name (filter (\<lambda>q. 1740787200000 < q_date q) (quarters (\<lambda>_ _. 0) 2025) ! i)
                @ '' estimated taxes are due on ''
                @ exampleDateString (q_date (filter (\<lambda>q. 1740787200000 < q_date q) (quarters (\<lambda>_ _. 0) 2025) ! i))
          \<and> rem_reminderType (new ! i) = email
          \<and> rem_sent (new ! i) = False
          \<and> rem_tenantId (new ! i) = ''T1''
          \<and> rem_complianceId (new ! i) = ''R1''
          \<and> rem_id (new ! i) = exampleNanoid i"
    and s: "(\<forall>t b. \<bar>(\<lambda>_ _. 0::int) t b\<bar> \<le> msPerDay) \<and> (2025::int) = 2025
          \<and> getMonth (\<lambda>_ _. 0) 1740787200000 = 2 \<and> getDate (\<lambda>_ _. 0) 1740787200000 = 1
          \<longrightarrow> length new = 4"
    by blast
  from s b march_first_fields have l: "length new = 4" by simp
  from n l have n0: "rem_scheduledFor (new ! 0) = 1744070400000
      \<and> rem_message (new ! 0) = ''Reminder: Q1 estimated taxes are due on 4/15/2025''"
    by (simp add: k quarters_2025 UTC_def LocalTime_def msPerDay_def exampleDateString_def)
  from n l have n3: "rem_scheduledFor (new ! 3) = 1767830400000
      \<and> rem_message (new ! 3) = ''Reminder: Q4 estimated taxes are due on 1/15/2026''"
    by (simp add: k quarters_2025 UTC_def LocalTime_def msPerDay_def exampleDateString_def)
  from r l n0 n3 have ex: "\<exists>new.
        scheduleQuarterlyTaxReminders (\<lambda>_ _. 0) exampleDateString (\<lambda>_. ''-'') exampleNanoid
            (Some emptyDb) 1740787200000 ''T1'' ''R1''
          = Inr (Some (emptyDb\<lparr>complianceReminders := complianceReminders emptyDb @ new\<rparr>))
        \<and> length new = 4
        \<and> rem_scheduledFor (new ! 0) = 1744070400000
        \<and> rem_message (new ! 0) = ''Reminder: Q1 estimated taxes are due on 4/15/2025''
        \<and> rem_scheduledFor (new ! 3) = 1767830400000
        \<and> rem_message (new ! 3) = ''Reminder: Q4 estimated taxes are due on 1/15/2026''"
    by blast
  show ?thesis
    apply (rule conjI, rule march_first_fields(1))
    apply (rule conjI, rule march_first_fields(2))
    apply (rule conjI, rule march_first_fields(3))
    apply (rule ex)
    done
qed

end
